theory Spec2Isabelle
  imports Main
begin

section \<open>The request router of index.js\<close>

text \<open>
  The server of \<^verbatim>\<open>index.js\<close> registers one asynchronous function, \<^verbatim>\<open>requestHandler\<close>,
  for every HTTP request. The function parses \<^verbatim>\<open>req.url\<close> with the platform's \<^verbatim>\<open>URL\<close>
  class, reads the query parameter \<^verbatim>\<open>name\<close>, and then, inside one \<^verbatim>\<open>try\<close> block, runs at
  most one \<^verbatim>\<open>client.query\<close> call chosen by the path and answers through \<^verbatim>\<open>jsonResponse\<close>.

  Two things the handler uses are not part of the program text: the URL parser of the
  platform and the database session \<^verbatim>\<open>client\<close>. Both are parameters of the model. The
  handler awaits at most one query, so interleaved handlers act on the session like
  handlers run one after the other in the order of their queries.
\<close>

subsection \<open>Data\<close>

text \<open>A thrown JavaScript error; the handler only ever reads \<^verbatim>\<open>e.message\<close>.\<close>

datatype js_error = Error (message: string)

text \<open>The two fields of the incoming request that the handler reads.\<close>

record request =
  "method" :: string
  url :: string

text \<open>
  What \<^verbatim>\<open>new URL(req.url, 'http://localhost:8080')\<close> yields when it does not throw:
  the handler reads \<^verbatim>\<open>pathname\<close> and \<^verbatim>\<open>searchParams\<close>, the latter a sequence of
  decoded name/value pairs in the order of the query string.
\<close>

record URL =
  pathname :: string
  searchParams :: "(string \<times> string) list"

text \<open>
  \<^verbatim>\<open>URLSearchParams.get(key)\<close>: the value of the first pair with that name, \<^verbatim>\<open>null\<close>
  (here \<open>None\<close>) when there is none.
\<close>

fun searchParams_get :: "(string \<times> string) list \<Rightarrow> string \<Rightarrow> string option" where
  "searchParams_get [] key = None"
| "searchParams_get ((k, v) # rest) key = (if k = key then Some v else searchParams_get rest key)"

text \<open>
  One row of \<^verbatim>\<open>my_table\<close> as \<^verbatim>\<open>setupTable\<close> creates it: the columns \<^verbatim>\<open>id\<close>
  (\<^verbatim>\<open>BIGSERIAL\<close>), \<^verbatim>\<open>name\<close> (\<^verbatim>\<open>varchar\<close>, nullable) and \<^verbatim>\<open>date\<close> (a timestamp, here a
  number).
\<close>

record row =
  row_id :: int
  row_name :: "string option"
  row_date :: nat

text \<open>The object a resolved \<^verbatim>\<open>client.query\<close> returns; the handler reads these two fields.\<close>

record query_result =
  rows :: "row list"
  rowCount :: nat

text \<open>
  One call of \<^verbatim>\<open>client.query(text, values)\<close>. The second argument is \<open>None\<close> when the
  call passes no array (the query of the default path).
\<close>

record query_call =
  sql :: string
  params :: "string list option"

text \<open>
  The session: a query either throws (\<open>Inl\<close>) or resolves (\<open>Inr\<close>), and may change the
  state \<open>'db\<close> behind the session.
\<close>

type_synonym 'db client =
  "string \<Rightarrow> string list option \<Rightarrow> 'db \<Rightarrow> (js_error + query_result) \<times> 'db"

text \<open>
  The three shapes of value the handler hands to \<^verbatim>\<open>JSON.stringify\<close>: the array
  \<^verbatim>\<open>entries.rows\<close>, the object literal \<^verbatim>\<open>{ success, message }\<close>, and a bare string.
\<close>

datatype response_object =
  Rows "row list"
| Confirmation bool string
| Text string

text \<open>
  What one run of the handler leaves behind: the response written to \<^verbatim>\<open>res\<close> (status code
  and body) if any, the lines written by \<^verbatim>\<open>console.log\<close> (method, url, code; the timestamp
  is left out), the calls made to \<^verbatim>\<open>client.query\<close> in order, the error that escaped the
  function if any, and the state behind the session.
\<close>

record 'db outcome =
  response :: "(nat \<times> response_object) option"
  logged :: "(string \<times> string \<times> nat) list"
  issued :: "query_call list"
  uncaught :: "js_error option"
  session :: 'db

subsection \<open>Template literals\<close>

text \<open>\<^verbatim>\<open>`${n}`\<close> for a non-negative integer \<open>n\<close>: its decimal digits.\<close>

definition digit :: "nat \<Rightarrow> char" where
  "digit d = ''0123456789'' ! d"

fun number_to_string :: "nat \<Rightarrow> string" where
  "number_to_string n =
     (if n < 10 then [digit n] else number_to_string (n div 10) @ [digit (n mod 10)])"

subsection \<open>The handler\<close>

text \<open>
  \<^verbatim>\<open>jsonResponse(responseObject, responseCode)\<close>: writes the head with the code, ends the
  response with the serialised object, and logs one line. The default \<^verbatim>\<open>responseCode = 200\<close>
  is written out at each call below.
\<close>

definition jsonResponse ::
  "request \<Rightarrow> response_object \<Rightarrow> nat \<Rightarrow> (nat \<times> response_object) \<times> (string \<times> string \<times> nat)" where
  "jsonResponse req responseObject responseCode =
     ((responseCode, responseObject), (method req, url req, responseCode))"

text \<open>
  The body of the \<^verbatim>\<open>try\<close> block: the chain of comparisons on \<^verbatim>\<open>requestUrl.pathname\<close>.
  The result is the error thrown by the query (\<open>Inl\<close>) or the arguments of the call of
  \<^verbatim>\<open>jsonResponse\<close> (\<open>Inr\<close>), together with the queries made and the new session state.
\<close>

definition route ::
  "'db client \<Rightarrow> URL \<Rightarrow> string \<Rightarrow> 'db
     \<Rightarrow> (js_error + response_object \<times> nat) \<times> query_call list \<times> 'db" where
  "route client requestUrl name db =
     (if pathname requestUrl = '''' \<or> pathname requestUrl = ''/'' then
        (case client ''SELECT * FROM my_table;'' None db of
           (Inl e, db') \<Rightarrow>
             (Inl e, [\<lparr>sql = ''SELECT * FROM my_table;'', params = None\<rparr>], db')
         | (Inr entries, db') \<Rightarrow>
             (Inr (Rows (rows entries), 200),
              [\<lparr>sql = ''SELECT * FROM my_table;'', params = None\<rparr>], db'))
      else if pathname requestUrl = ''/read'' then
        (case client ''SELECT * FROM my_table WHERE name = $1;'' (Some [name]) db of
           (Inl e, db') \<Rightarrow>
             (Inl e,
              [\<lparr>sql = ''SELECT * FROM my_table WHERE name = $1;'', params = Some [name]\<rparr>], db')
         | (Inr entries, db') \<Rightarrow>
             (Inr (Rows (rows entries), 200),
              [\<lparr>sql = ''SELECT * FROM my_table WHERE name = $1;'', params = Some [name]\<rparr>], db'))
      else if pathname requestUrl = ''/add'' then
        (case client ''INSERT INTO my_table(name) VALUES($1);'' (Some [name]) db of
           (Inl e, db') \<Rightarrow>
             (Inl e,
              [\<lparr>sql = ''INSERT INTO my_table(name) VALUES($1);'', params = Some [name]\<rparr>], db')
         | (Inr insertRow, db') \<Rightarrow>
             (Inr (Confirmation True
                     (''Inserted '' @ number_to_string (rowCount insertRow)
                        @ '' row with name '' @ [CHR 0x27] @ name @ [CHR 0x27]),
                   200),
              [\<lparr>sql = ''INSERT INTO my_table(name) VALUES($1);'', params = Some [name]\<rparr>], db'))
      else
        (Inr (Text ''The requested route doesn't exist :('', 404), [], db))"

text \<open>
  \<^verbatim>\<open>requestUrl.searchParams.get('name') ?? 'john'\<close>: the operator \<^verbatim>\<open>??\<close> takes its
  right side only when the left side is \<^verbatim>\<open>null\<close> or \<^verbatim>\<open>undefined\<close>; an empty string
  stays.
\<close>

definition name_param :: "URL \<Rightarrow> string" where
  "name_param requestUrl =
     (case searchParams_get (searchParams requestUrl) ''name'' of
        None \<Rightarrow> ''john''
      | Some v \<Rightarrow> v)"

text \<open>
  \<^verbatim>\<open>requestHandler(req, res)\<close>. The URL is parsed and the name read before the
  \<^verbatim>\<open>try\<close> block: an error thrown by the parser leaves the function at once. Inside,
  the \<^verbatim>\<open>catch\<close> clause turns an error of the block into the 500 response.
\<close>

definition requestHandler ::
  "(string \<Rightarrow> string \<Rightarrow> js_error + URL) \<Rightarrow> 'db client \<Rightarrow> request \<Rightarrow> 'db \<Rightarrow> 'db outcome" where
  "requestHandler newURL client req db =
     (case newURL (url req) ''http://localhost:8080'' of
        Inl e \<Rightarrow>
          \<lparr>response = None, logged = [], issued = [], uncaught = Some e, session = db\<rparr>
      | Inr requestUrl \<Rightarrow>
          (let name = name_param requestUrl
           in case route client requestUrl name db of
                (Inr (responseObject, responseCode), queries, db') \<Rightarrow>
                  (case jsonResponse req responseObject responseCode of
                     (written, line) \<Rightarrow>
                       \<lparr>response = Some written, logged = [line], issued = queries,
                        uncaught = None, session = db'\<rparr>)
              | (Inl e, queries, db') \<Rightarrow>
                  (case jsonResponse req
                          (Text (''Some error happened :(( -- (error: '' @ message e @ '')''))
                          500 of
                     (written, line) \<Rightarrow>
                       \<lparr>response = Some written, logged = [line], issued = queries,
                        uncaught = None, session = db'\<rparr>)))"

subsection \<open>Observing the calls a client receives\<close>

text \<open>
  A client that wraps another one: it writes down the text and the values of every call
  it receives, in order, and hands the call on unchanged. Its state is the list of calls
  received so far together with the state of the wrapped client. What this list holds after
  a run of the handler is what the handler passed to \<^verbatim>\<open>client.query\<close>.
\<close>

definition recording :: "'db client \<Rightarrow> (query_call list \<times> 'db) client" where
  "recording client text values s =
     (case s of
        (received, db) \<Rightarrow>
          (case client text values db of
             (result, db') \<Rightarrow>
               (result, (received @ [\<lparr>sql = text, params = values\<rparr>], db'))))"

subsection \<open>The session and the table behind it\<close>

text \<open>
  The handler reaches the table only through the session that \<^verbatim>\<open>get-client.js\<close> makes.
  That file is not among the sources, and the table lives in the database server, so the
  session is described here as the spec describes it.
\<close>

text \<open>
  Modelled from the spec: the persisted state, a single table of Records with \<^verbatim>\<open>id\<close>
  assigned by the storage layer from an increasing sequence. The rows are kept in the order
  of their insertion.
\<close>

record database =
  table :: "row list"
  next_id :: int

text \<open>
  Modelled from the spec: what the environment decides for one query. A query may fail
  for any reason (connection loss, malformed query, constraint violation), with an error
  that carries a message; \<^verbatim>\<open>date\<close> defaults to the time of the insertion.
\<close>

record env =
  fault :: "js_error option"
  now :: nat

text \<open>
  Modelled from the spec: \<^verbatim>\<open>Session.query(text, params) -> {rows, rowCount}\<close> of the Data
  Access Collaborator, on the three statements of the router: fetch all records, fetch the
  records whose name equals the parameter, insert one record with the given name. A failed
  query leaves the table as it was. A statement with the wrong number of bound values, or
  any other text, is an error.
\<close>

definition session_query :: "env \<Rightarrow> database client" where
  "session_query ev text values db =
     (case fault ev of
        Some e \<Rightarrow> (Inl e, db)
      | None \<Rightarrow>
          if text = ''SELECT * FROM my_table;'' then
            (case values of
               None \<Rightarrow> (Inr \<lparr>rows = table db, rowCount = length (table db)\<rparr>, db)
             | Some vs \<Rightarrow> (Inl (Error ''wrong number of parameters''), db))
          else if text = ''SELECT * FROM my_table WHERE name = $1;'' then
            (case values of
               Some [v] \<Rightarrow>
                 (Inr \<lparr>rows = filter (\<lambda>r. row_name r = Some v) (table db),
                       rowCount = length (filter (\<lambda>r. row_name r = Some v) (table db))\<rparr>,
                  db)
             | _ \<Rightarrow> (Inl (Error ''wrong number of parameters''), db))
          else if text = ''INSERT INTO my_table(name) VALUES($1);'' then
            (case values of
               Some [v] \<Rightarrow>
                 (Inr \<lparr>rows = [], rowCount = 1\<rparr>,
                  db\<lparr>table := table db
                               @ [\<lparr>row_id = next_id db, row_name = Some v, row_date = now ev\<rparr>],
                     next_id := next_id db + 1\<rparr>)
             | _ \<Rightarrow> (Inl (Error ''wrong number of parameters''), db))
          else (Inl (Error ''unknown statement''), db))"

subsection \<open>Serving a sequence of requests\<close>

text \<open>
  \<^verbatim>\<open>server.on('request', requestHandler)\<close>: every request is given to the handler, all
  on the one session. The result is the outcome of each request, in order, and the
  database after the last. A handler that ends with an uncaught error has not touched the
  table, which outlives the process in any case, so the run goes on with the next request.
\<close>

fun serve ::
  "(string \<Rightarrow> string \<Rightarrow> js_error + URL) \<Rightarrow> (env \<times> request) list \<Rightarrow> database
     \<Rightarrow> database outcome list \<times> database" where
  "serve newURL [] db = ([], db)"
| "serve newURL ((ev, req) # rest) db =
     (let out = requestHandler newURL (session_query ev) req db
      in case serve newURL rest (session out) of
           (outs, db') \<Rightarrow> (out # outs, db'))"

text \<open>
  A successful \<^verbatim>\<open>/add\<close> call: the path of the request is \<^verbatim>\<open>/add\<close> and the response
  has code 200.
\<close>

definition successful_add ::
  "(string \<Rightarrow> string \<Rightarrow> js_error + URL) \<Rightarrow> request \<Rightarrow> database outcome \<Rightarrow> bool" where
  "successful_add newURL req out =
     (case newURL (url req) ''http://localhost:8080'' of
        Inl e \<Rightarrow> False
      | Inr requestUrl \<Rightarrow>
          pathname requestUrl = ''/add''
          \<and> (case response out of None \<Rightarrow> False | Some (code, body) \<Rightarrow> code = 200))"

fun count_successful_adds ::
  "(string \<Rightarrow> string \<Rightarrow> js_error + URL) \<Rightarrow> (env \<times> request) list \<Rightarrow> database outcome list
     \<Rightarrow> nat" where
  "count_successful_adds newURL ((ev, req) # rest) (out # outs) =
     (if successful_add newURL req out then 1 else 0) + count_successful_adds newURL rest outs"
| "count_successful_adds newURL reqs outs = 0"

text \<open>
  The platform's parser on the request targets used in the examples below, as a finite
  table; every other string is taken to be one the parser rejects, as it does \<^verbatim>\<open>//\<close>.
\<close>

definition example_newURL :: "string \<Rightarrow> string \<Rightarrow> js_error + URL" where
  "example_newURL input base =
     (if input = ''/'' then Inr \<lparr>pathname = ''/'', searchParams = []\<rparr>
      else if input = ''/read'' then Inr \<lparr>pathname = ''/read'', searchParams = []\<rparr>
      else if input = ''/read?name=john'' then
        Inr \<lparr>pathname = ''/read'', searchParams = [(''name'', ''john'')]\<rparr>
      else if input = ''/read?name=bob'' then
        Inr \<lparr>pathname = ''/read'', searchParams = [(''name'', ''bob'')]\<rparr>
      else if input = ''/read?name=eve'' then
        Inr \<lparr>pathname = ''/read'', searchParams = [(''name'', ''eve'')]\<rparr>
      else if input = ''/add'' then Inr \<lparr>pathname = ''/add'', searchParams = []\<rparr>
      else if input = ''/add?name=john'' then
        Inr \<lparr>pathname = ''/add'', searchParams = [(''name'', ''john'')]\<rparr>
      else if input = ''/add?name=bob'' then
        Inr \<lparr>pathname = ''/add'', searchParams = [(''name'', ''bob'')]\<rparr>
      else if input = ''/add?name='' then
        Inr \<lparr>pathname = ''/add'', searchParams = [(''name'', [])]\<rparr>
      else if input = ''/delete'' then Inr \<lparr>pathname = ''/delete'', searchParams = []\<rparr>
      else Inl (Error ''Invalid URL''))"

text \<open>
  An example run: an insert, an insert that fails with a lost connection, a read, and an
  insert without a name.
\<close>

definition example_run :: "(env \<times> request) list" where
  "example_run =
     [(\<lparr>fault = None, now = 1\<rparr>, \<lparr>method = ''GET'', url = ''/add?name=bob''\<rparr>),
      (\<lparr>fault = Some (Error ''Connection terminated''), now = 2\<rparr>,
       \<lparr>method = ''GET'', url = ''/add?name=john''\<rparr>),
      (\<lparr>fault = None, now = 3\<rparr>, \<lparr>method = ''GET'', url = ''/read?name=bob''\<rparr>),
      (\<lparr>fault = None, now = 4\<rparr>, \<lparr>method = ''GET'', url = ''/add''\<rparr>)]"

section \<open>Lemmas on the handler and the session\<close>

lemma requestHandler_throws:
  "newURL (url req) ''http://localhost:8080'' = Inl e \<Longrightarrow>
   requestHandler newURL client req db =
     \<lparr>response = None, logged = [], issued = [], uncaught = Some e, session = db\<rparr>"
  by (simp add: requestHandler_def)

lemma requestHandler_caught:
  "newURL (url req) ''http://localhost:8080'' = Inr u \<Longrightarrow>
   route client u (name_param u) db = (Inl e, qs, db') \<Longrightarrow>
   requestHandler newURL client req db =
     \<lparr>response = Some (500, Text (''Some error happened :(( -- (error: '' @ message e @ '')'')),
      logged = [(method req, url req, 500)], issued = qs, uncaught = None, session = db'\<rparr>"
  by (simp add: requestHandler_def jsonResponse_def)

lemma requestHandler_answered:
  "newURL (url req) ''http://localhost:8080'' = Inr u \<Longrightarrow>
   route client u (name_param u) db = (Inr (obj, code), qs, db') \<Longrightarrow>
   requestHandler newURL client req db =
     \<lparr>response = Some (code, obj),
      logged = [(method req, url req, code)], issued = qs, uncaught = None, session = db'\<rparr>"
  by (simp add: requestHandler_def jsonResponse_def)

lemma route_default:
  "pathname u = '''' \<or> pathname u = ''/'' \<Longrightarrow>
   route client u n db =
     (case client ''SELECT * FROM my_table;'' None db of
        (Inl e, db') \<Rightarrow> (Inl e, [\<lparr>sql = ''SELECT * FROM my_table;'', params = None\<rparr>], db')
      | (Inr entries, db') \<Rightarrow>
          (Inr (Rows (rows entries), 200),
           [\<lparr>sql = ''SELECT * FROM my_table;'', params = None\<rparr>], db'))"
  by (simp add: route_def)

lemma route_read:
  "pathname u = ''/read'' \<Longrightarrow>
   route client u n db =
     (case client ''SELECT * FROM my_table WHERE name = $1;'' (Some [n]) db of
        (Inl e, db') \<Rightarrow>
          (Inl e, [\<lparr>sql = ''SELECT * FROM my_table WHERE name = $1;'', params = Some [n]\<rparr>], db')
      | (Inr entries, db') \<Rightarrow>
          (Inr (Rows (rows entries), 200),
           [\<lparr>sql = ''SELECT * FROM my_table WHERE name = $1;'', params = Some [n]\<rparr>], db'))"
  by (simp add: route_def)

lemma route_add:
  "pathname u = ''/add'' \<Longrightarrow>
   route client u n db =
     (case client ''INSERT INTO my_table(name) VALUES($1);'' (Some [n]) db of
        (Inl e, db') \<Rightarrow>
          (Inl e, [\<lparr>sql = ''INSERT INTO my_table(name) VALUES($1);'', params = Some [n]\<rparr>], db')
      | (Inr insertRow, db') \<Rightarrow>
          (Inr (Confirmation True
                  (''Inserted '' @ number_to_string (rowCount insertRow)
                     @ '' row with name '' @ [CHR 0x27] @ n @ [CHR 0x27]),
                200),
           [\<lparr>sql = ''INSERT INTO my_table(name) VALUES($1);'', params = Some [n]\<rparr>], db'))"
  by (simp add: route_def)

lemma route_other:
  "pathname u \<noteq> '''' \<Longrightarrow> pathname u \<noteq> ''/'' \<Longrightarrow> pathname u \<noteq> ''/read'' \<Longrightarrow>
   pathname u \<noteq> ''/add'' \<Longrightarrow>
   route client u n db =
     (Inr (Text ''The requested route doesn't exist :('', 404), [], db)"
  by (simp add: route_def)

lemma issued_requestHandler:
  "newURL (url req) ''http://localhost:8080'' = Inr u \<Longrightarrow>
   issued (requestHandler newURL client req db) =
     (if pathname u = [] \<or> pathname u = ''/'' then
        [\<lparr>sql = ''SELECT * FROM my_table;'', params = None\<rparr>]
      else if pathname u = ''/read'' then
        [\<lparr>sql = ''SELECT * FROM my_table WHERE name = $1;'', params = Some [name_param u]\<rparr>]
      else if pathname u = ''/add'' then
        [\<lparr>sql = ''INSERT INTO my_table(name) VALUES($1);'', params = Some [name_param u]\<rparr>]
      else [])"
  by (auto simp: requestHandler_def route_def jsonResponse_def Let_def split: sum.splits prod.splits)

lemma session_query_fault:
  "fault ev = Some e \<Longrightarrow> session_query ev text values db = (Inl e, db)"
  by (simp add: session_query_def)

lemma session_query_select_all:
  "fault ev = None \<Longrightarrow>
   session_query ev ''SELECT * FROM my_table;'' None db
     = (Inr \<lparr>rows = table db, rowCount = length (table db)\<rparr>, db)"
  by (simp add: session_query_def)

lemma session_query_select_name:
  "fault ev = None \<Longrightarrow>
   session_query ev ''SELECT * FROM my_table WHERE name = $1;'' (Some [v]) db
     = (Inr \<lparr>rows = filter (\<lambda>r. row_name r = Some v) (table db),
             rowCount = length (filter (\<lambda>r. row_name r = Some v) (table db))\<rparr>, db)"
  by (simp add: session_query_def)

lemma session_query_insert:
  "fault ev = None \<Longrightarrow>
   session_query ev ''INSERT INTO my_table(name) VALUES($1);'' (Some [v]) db
     = (Inr \<lparr>rows = [], rowCount = 1\<rparr>,
        db\<lparr>table := table db @ [\<lparr>row_id = next_id db, row_name = Some v, row_date = now ev\<rparr>],
           next_id := next_id db + 1\<rparr>)"
  by (simp add: session_query_def)

lemma handler_default:
  assumes "newURL (url req) ''http://localhost:8080'' = Inr u"
    and "pathname u = [] \<or> pathname u = ''/''"
    and "fault ev = None"
  shows "requestHandler newURL (session_query ev) req db =
     \<lparr>response = Some (200, Rows (table db)), logged = [(method req, url req, 200)],
      issued = [\<lparr>sql = ''SELECT * FROM my_table;'', params = None\<rparr>],
      uncaught = None, session = db\<rparr>"
proof -
  have "route (session_query ev) u (name_param u) db =
          (Inr (Rows (table db), 200), [\<lparr>sql = ''SELECT * FROM my_table;'', params = None\<rparr>], db)"
    using assms(2,3) by (simp add: route_default session_query_select_all)
  with assms(1) show ?thesis by (simp add: requestHandler_answered)
qed

lemma handler_read:
  assumes "newURL (url req) ''http://localhost:8080'' = Inr u"
    and "pathname u = ''/read''"
    and "fault ev = None"
  shows "requestHandler newURL (session_query ev) req db =
     \<lparr>response = Some (200, Rows (filter (\<lambda>r. row_name r = Some (name_param u)) (table db))),
      logged = [(method req, url req, 200)],
      issued = [\<lparr>sql = ''SELECT * FROM my_table WHERE name = $1;'',
                 params = Some [name_param u]\<rparr>],
      uncaught = None, session = db\<rparr>"
proof -
  have "route (session_query ev) u (name_param u) db =
          (Inr (Rows (filter (\<lambda>r. row_name r = Some (name_param u)) (table db)), 200),
           [\<lparr>sql = ''SELECT * FROM my_table WHERE name = $1;'', params = Some [name_param u]\<rparr>],
           db)"
    using assms(2,3) by (simp add: route_read session_query_select_name)
  with assms(1) show ?thesis by (simp add: requestHandler_answered)
qed

lemma number_to_string_1: "number_to_string (Suc 0) = ''1''"
  by (simp add: digit_def)

lemma handler_add:
  assumes "newURL (url req) ''http://localhost:8080'' = Inr u"
    and "pathname u = ''/add''"
    and "fault ev = None"
  shows "requestHandler newURL (session_query ev) req db =
     \<lparr>response = Some (200, Confirmation True
                          (''Inserted 1 row with name '' @ [CHR 0x27] @ name_param u @ [CHR 0x27])),
      logged = [(method req, url req, 200)],
      issued = [\<lparr>sql = ''INSERT INTO my_table(name) VALUES($1);'',
                 params = Some [name_param u]\<rparr>],
      uncaught = None,
      session = db\<lparr>table := table db @ [\<lparr>row_id = next_id db, row_name = Some (name_param u),
                                           row_date = now ev\<rparr>],
                   next_id := next_id db + 1\<rparr>\<rparr>"
proof -
  have "route (session_query ev) u (name_param u) db =
          (Inr (Confirmation True
                  (''Inserted 1 row with name '' @ [CHR 0x27] @ name_param u @ [CHR 0x27]), 200),
           [\<lparr>sql = ''INSERT INTO my_table(name) VALUES($1);'', params = Some [name_param u]\<rparr>],
           db\<lparr>table := table db @ [\<lparr>row_id = next_id db, row_name = Some (name_param u),
                                     row_date = now ev\<rparr>],
              next_id := next_id db + 1\<rparr>)"
    using assms(2,3)
    by (simp add: route_add session_query_insert number_to_string_1 del: number_to_string.simps)
  with assms(1) show ?thesis by (simp add: requestHandler_answered)
qed

lemma handler_fault:
  assumes "fault ev = Some e"
  shows "session (requestHandler newURL (session_query ev) req db) = db
       \<and> (\<forall>code body. response (requestHandler newURL (session_query ev) req db)
                          = Some (code, body) \<longrightarrow> code \<noteq> 200)"
proof (cases "newURL (url req) ''http://localhost:8080''")
  case (Inl x)
  then show ?thesis by (simp add: requestHandler_throws)
next
  case (Inr u)
  consider (root) "pathname u = [] \<or> pathname u = ''/''"
    | (read) "pathname u = ''/read''"
    | (add) "pathname u = ''/add''"
    | (other) "pathname u \<noteq> []" "pathname u \<noteq> ''/''" "pathname u \<noteq> ''/read''"
        "pathname u \<noteq> ''/add''"
    by blast
  then show ?thesis
  proof cases
    case root
    with assms have "route (session_query ev) u (name_param u) db
        = (Inl e, [\<lparr>sql = ''SELECT * FROM my_table;'', params = None\<rparr>], db)"
      by (simp add: route_default session_query_fault)
    with Inr show ?thesis by (simp add: requestHandler_caught)
  next
    case read
    with assms have "route (session_query ev) u (name_param u) db
        = (Inl e, [\<lparr>sql = ''SELECT * FROM my_table WHERE name = $1;'',
                     params = Some [name_param u]\<rparr>], db)"
      by (simp add: route_read session_query_fault)
    with Inr show ?thesis by (simp add: requestHandler_caught)
  next
    case add
    with assms have "route (session_query ev) u (name_param u) db
        = (Inl e, [\<lparr>sql = ''INSERT INTO my_table(name) VALUES($1);'',
                     params = Some [name_param u]\<rparr>], db)"
      by (simp add: route_add session_query_fault)
    with Inr show ?thesis by (simp add: requestHandler_caught)
  next
    case other
    with Inr show ?thesis by (simp add: requestHandler_answered route_other)
  qed
qed

lemma route_pathname_only:
  "pathname u' = pathname u \<Longrightarrow> route client u' n db = route client u n db"
  by (simp add: route_def)

lemma name_param_absent:
  "searchParams_get (searchParams u) ''name'' = None \<Longrightarrow> name_param u = ''john''"
  by (simp add: name_param_def)

lemma name_param_present:
  "searchParams_get (searchParams u) ''name'' = Some v \<Longrightarrow> name_param u = v"
  by (simp add: name_param_def)

lemma requestHandler_same_route:
  assumes "newURL (url req) ''http://localhost:8080'' = Inr u"
    and "newURL (url req') ''http://localhost:8080'' = Inr u'"
    and "route client u' (name_param u') db = route client u (name_param u) db"
  shows "response (requestHandler newURL client req' db)
           = response (requestHandler newURL client req db)
       \<and> issued (requestHandler newURL client req' db)
           = issued (requestHandler newURL client req db)
       \<and> session (requestHandler newURL client req' db)
           = session (requestHandler newURL client req db)
       \<and> uncaught (requestHandler newURL client req' db)
           = uncaught (requestHandler newURL client req db)"
proof -
  obtain r qs d where rt: "route client u (name_param u) db = (r, qs, d)"
    by (cases "route client u (name_param u) db") auto
  show ?thesis
  proof (cases r)
    case (Inl e)
    with rt assms show ?thesis by (simp add: requestHandler_caught)
  next
    case (Inr a)
    obtain obj code where "a = (obj, code)" by (cases a) auto
    with Inr rt assms show ?thesis by (simp add: requestHandler_answered)
  qed
qed

lemma handler_step:
  "\<exists>xs. table (session (requestHandler newURL (session_query ev) req db)) = table db @ xs
        \<and> (if successful_add newURL req (requestHandler newURL (session_query ev) req db)
            then 1 else 0) \<le> length xs"
proof (cases "fault ev")
  case (Some e)
  from handler_fault [OF this, of newURL req db]
  show ?thesis by (auto simp: successful_add_def split: sum.splits option.splits)
next
  case None
  show ?thesis
  proof (cases "newURL (url req) ''http://localhost:8080''")
    case (Inl x)
    then show ?thesis by (simp add: requestHandler_throws successful_add_def)
  next
    case (Inr u)
    consider (root) "pathname u = [] \<or> pathname u = ''/''"
      | (read) "pathname u = ''/read''"
      | (add) "pathname u = ''/add''"
      | (other) "pathname u \<noteq> []" "pathname u \<noteq> ''/''" "pathname u \<noteq> ''/read''"
          "pathname u \<noteq> ''/add''"
      by blast
    then show ?thesis
    proof cases
      case root
      then have "pathname u \<noteq> ''/add''" by auto
      with handler_default [of newURL req u ev db] Inr None root
      show ?thesis by (simp add: successful_add_def)
    next
      case read
      with handler_read [of newURL req u ev db] Inr None
      show ?thesis by (simp add: successful_add_def)
    next
      case add
      with handler_add [of newURL req u ev db] Inr None
      show ?thesis by simp
    next
      case other
      with Inr show ?thesis
        by (simp add: requestHandler_answered route_other successful_add_def)
    qed
  qed
qed

lemma serve_table:
  "serve newURL reqs db = (outs, db') \<Longrightarrow>
   \<exists>xs. table db' = table db @ xs \<and> count_successful_adds newURL reqs outs \<le> length xs"
proof (induction reqs arbitrary: db outs)
  case Nil
  then show ?case by simp
next
  case (Cons a reqs)
  obtain ev req where a: "a = (ev, req)" by (cases a) auto
  let ?out = "requestHandler newURL (session_query ev) req db"
  obtain outs' where s: "serve newURL reqs (session ?out) = (outs', db')"
    and o: "outs = ?out # outs'"
    using Cons.prems a by (auto simp: Let_def split: prod.splits)
  from Cons.IH [OF s] obtain ys where
    ys: "table db' = table (session ?out) @ ys" "count_successful_adds newURL reqs outs' \<le> length ys"
    by blast
  from handler_step [of newURL ev req db] obtain xs where
    xs: "table (session ?out) = table db @ xs"
      "(if successful_add newURL req ?out then 1 else 0) \<le> length xs"
    by blast
  have "table db' = table db @ (xs @ ys)" using xs(1) ys(1) by simp
  moreover have "count_successful_adds newURL (a # reqs) outs \<le> length (xs @ ys)"
    using a o xs(2) ys(2) by (simp split: if_splits)
  ultimately show ?case by blast
qed

lemma handler_not_add:
  assumes "newURL (url req) ''http://localhost:8080'' = Inr u"
    and "pathname u \<noteq> ''/add''"
  shows "session (requestHandler newURL (session_query ev) req db) = db"
proof (cases "fault ev")
  case (Some e)
  from handler_fault [OF this, of newURL req db] show ?thesis by simp
next
  case None
  consider (root) "pathname u = [] \<or> pathname u = ''/''"
    | (read) "pathname u = ''/read''"
    | (other) "pathname u \<noteq> []" "pathname u \<noteq> ''/''" "pathname u \<noteq> ''/read''"
    by blast
  then show ?thesis
  proof cases
    case root
    with handler_default [of newURL req u ev db] assms(1) None show ?thesis by simp
  next
    case read
    with handler_read [of newURL req u ev db] assms(1) None show ?thesis by simp
  next
    case other
    with assms show ?thesis by (simp add: requestHandler_answered route_other)
  qed
qed

lemma serve_example_run:
  "serve example_newURL example_run \<lparr>table = [], next_id = 1\<rparr>
   = ([\<lparr>response = Some (200, Confirmation True
                  (''Inserted 1 row with name '' @ [CHR 0x27] @ ''bob'' @ [CHR 0x27])),
        logged = [(''GET'', ''/add?name=bob'', 200)],
        issued = [\<lparr>sql = ''INSERT INTO my_table(name) VALUES($1);'', params = Some [''bob'']\<rparr>],
        uncaught = None,
        session = \<lparr>table = [\<lparr>row_id = 1, row_name = Some ''bob'', row_date = 1\<rparr>], next_id = 2\<rparr>\<rparr>,
       \<lparr>response = Some (500, Text ''Some error happened :(( -- (error: Connection terminated)''),
        logged = [(''GET'', ''/add?name=john'', 500)],
        issued = [\<lparr>sql = ''INSERT INTO my_table(name) VALUES($1);'', params = Some [''john'']\<rparr>],
        uncaught = None,
        session = \<lparr>table = [\<lparr>row_id = 1, row_name = Some ''bob'', row_date = 1\<rparr>], next_id = 2\<rparr>\<rparr>,
       \<lparr>response = Some (200, Rows [\<lparr>row_id = 1, row_name = Some ''bob'', row_date = 1\<rparr>]),
        logged = [(''GET'', ''/read?name=bob'', 200)],
        issued = [\<lparr>sql = ''SELECT * FROM my_table WHERE name = $1;'', params = Some [''bob'']\<rparr>],
        uncaught = None,
        session = \<lparr>table = [\<lparr>row_id = 1, row_name = Some ''bob'', row_date = 1\<rparr>], next_id = 2\<rparr>\<rparr>,
       \<lparr>response = Some (200, Confirmation True
                  (''Inserted 1 row with name '' @ [CHR 0x27] @ ''john'' @ [CHR 0x27])),
        logged = [(''GET'', ''/add'', 200)],
        issued = [\<lparr>sql = ''INSERT INTO my_table(name) VALUES($1);'', params = Some [''john'']\<rparr>],
        uncaught = None,
        session = \<lparr>table = [\<lparr>row_id = 1, row_name = Some ''bob'', row_date = 1\<rparr>,
                            \<lparr>row_id = 2, row_name = Some ''john'', row_date = 4\<rparr>], next_id = 3\<rparr>\<rparr>],
      \<lparr>table = [\<lparr>row_id = 1, row_name = Some ''bob'', row_date = 1\<rparr>,
                \<lparr>row_id = 2, row_name = Some ''john'', row_date = 4\<rparr>], next_id = 3\<rparr>)"
  by (simp add: requestHandler_def route_def jsonResponse_def session_query_def name_param_def
      example_newURL_def example_run_def digit_def Let_def)

lemma requestHandler_add_outcome:
  assumes "newURL (url req) ''http://localhost:8080'' = Inr u"
    and "pathname u = ''/add''"
  shows "session (requestHandler newURL client req db)
           = snd (client ''INSERT INTO my_table(name) VALUES($1);'' (Some [name_param u]) db)"
    and "response (requestHandler newURL client req db)
           = (case fst (client ''INSERT INTO my_table(name) VALUES($1);''
                          (Some [name_param u]) db) of
                Inl e \<Rightarrow>
                  Some (500, Text (''Some error happened :(( -- (error: '' @ message e @ '')''))
              | Inr insertRow \<Rightarrow>
                  Some (200, Confirmation True
                          (''Inserted '' @ number_to_string (rowCount insertRow)
                             @ '' row with name '' @ [CHR 0x27] @ name_param u @ [CHR 0x27])))"
proof -
  obtain a b where
    c: "client ''INSERT INTO my_table(name) VALUES($1);'' (Some [name_param u]) db = (a, b)"
    by (cases "client ''INSERT INTO my_table(name) VALUES($1);'' (Some [name_param u]) db") auto
  show "session (requestHandler newURL client req db)
           = snd (client ''INSERT INTO my_table(name) VALUES($1);'' (Some [name_param u]) db)"
  proof (cases a)
    case (Inl e)
    with c assms(2) have "route client u (name_param u) db
        = (Inl e, [\<lparr>sql = ''INSERT INTO my_table(name) VALUES($1);'',
                     params = Some [name_param u]\<rparr>], b)"
      by (simp add: route_add)
    with assms(1) c show ?thesis by (simp add: requestHandler_caught)
  next
    case (Inr r)
    with c assms(2) have "route client u (name_param u) db
        = (Inr (Confirmation True
                  (''Inserted '' @ number_to_string (rowCount r)
                     @ '' row with name '' @ [CHR 0x27] @ name_param u @ [CHR 0x27]), 200),
           [\<lparr>sql = ''INSERT INTO my_table(name) VALUES($1);'',
              params = Some [name_param u]\<rparr>], b)"
      by (simp add: route_add del: number_to_string.simps)
    with assms(1) c show ?thesis by (simp add: requestHandler_answered del: number_to_string.simps)
  qed
  show "response (requestHandler newURL client req db)
           = (case fst (client ''INSERT INTO my_table(name) VALUES($1);''
                          (Some [name_param u]) db) of
                Inl e \<Rightarrow>
                  Some (500, Text (''Some error happened :(( -- (error: '' @ message e @ '')''))
              | Inr insertRow \<Rightarrow>
                  Some (200, Confirmation True
                          (''Inserted '' @ number_to_string (rowCount insertRow)
                             @ '' row with name '' @ [CHR 0x27] @ name_param u @ [CHR 0x27])))"
  proof (cases a)
    case (Inl e)
    with c assms(2) have "route client u (name_param u) db
        = (Inl e, [\<lparr>sql = ''INSERT INTO my_table(name) VALUES($1);'',
                     params = Some [name_param u]\<rparr>], b)"
      by (simp add: route_add)
    with assms(1) c Inl show ?thesis by (simp add: requestHandler_caught)
  next
    case (Inr r)
    with c assms(2) have "route client u (name_param u) db
        = (Inr (Confirmation True
                  (''Inserted '' @ number_to_string (rowCount r)
                     @ '' row with name '' @ [CHR 0x27] @ name_param u @ [CHR 0x27]), 200),
           [\<lparr>sql = ''INSERT INTO my_table(name) VALUES($1);'',
              params = Some [name_param u]\<rparr>], b)"
      by (simp add: route_add del: number_to_string.simps)
    with assms(1) c Inr show ?thesis
      by (simp add: requestHandler_answered del: number_to_string.simps)
  qed
qed

lemma requestHandler_read_outcome:
  assumes "newURL (url req) ''http://localhost:8080'' = Inr u"
    and "pathname u = ''/read''"
  shows "session (requestHandler newURL client req db)
           = snd (client ''SELECT * FROM my_table WHERE name = $1;'' (Some [name_param u]) db)"
    and "response (requestHandler newURL client req db)
           = (case fst (client ''SELECT * FROM my_table WHERE name = $1;''
                          (Some [name_param u]) db) of
                Inl e \<Rightarrow>
                  Some (500, Text (''Some error happened :(( -- (error: '' @ message e @ '')''))
              | Inr entries \<Rightarrow> Some (200, Rows (rows entries)))"
proof -
  obtain a b where
    c: "client ''SELECT * FROM my_table WHERE name = $1;'' (Some [name_param u]) db = (a, b)"
    by (cases "client ''SELECT * FROM my_table WHERE name = $1;'' (Some [name_param u]) db") auto
  have rt: "route client u (name_param u) db
      = (case a of
           Inl e \<Rightarrow>
             (Inl e, [\<lparr>sql = ''SELECT * FROM my_table WHERE name = $1;'',
                         params = Some [name_param u]\<rparr>], b)
         | Inr entries \<Rightarrow>
             (Inr (Rows (rows entries), 200),
              [\<lparr>sql = ''SELECT * FROM my_table WHERE name = $1;'',
                 params = Some [name_param u]\<rparr>], b))"
    using c assms(2) by (cases a) (simp_all add: route_read)
  show "session (requestHandler newURL client req db)
           = snd (client ''SELECT * FROM my_table WHERE name = $1;'' (Some [name_param u]) db)"
    using assms(1) c rt
    by (cases a) (simp_all add: requestHandler_caught requestHandler_answered)
  show "response (requestHandler newURL client req db)
           = (case fst (client ''SELECT * FROM my_table WHERE name = $1;''
                          (Some [name_param u]) db) of
                Inl e \<Rightarrow>
                  Some (500, Text (''Some error happened :(( -- (error: '' @ message e @ '')''))
              | Inr entries \<Rightarrow> Some (200, Rows (rows entries)))"
    using assms(1) c rt
    by (cases a) (simp_all add: requestHandler_caught requestHandler_answered)
qed

lemma route_recording:
  "route (recording client) u n (received, db)
     = (case route client u n db of
          (r, qs, db') \<Rightarrow> (r, qs, (received @ qs, db')))"
proof -
  consider (root) "pathname u = [] \<or> pathname u = ''/''"
    | (read) "pathname u = ''/read''"
    | (add) "pathname u = ''/add''"
    | (other) "pathname u \<noteq> []" "pathname u \<noteq> ''/''" "pathname u \<noteq> ''/read''"
        "pathname u \<noteq> ''/add''"
    by blast
  then show ?thesis
  proof cases
    case root
    obtain a b where c: "client ''SELECT * FROM my_table;'' None db = (a, b)"
      by (cases "client ''SELECT * FROM my_table;'' None db") auto
    with root show ?thesis
      by (cases a) (simp_all add: route_default recording_def)
  next
    case read
    obtain a b where c: "client ''SELECT * FROM my_table WHERE name = $1;'' (Some [n]) db = (a, b)"
      by (cases "client ''SELECT * FROM my_table WHERE name = $1;'' (Some [n]) db") auto
    with read show ?thesis
      by (cases a) (simp_all add: route_read recording_def)
  next
    case add
    obtain a b where c: "client ''INSERT INTO my_table(name) VALUES($1);'' (Some [n]) db = (a, b)"
      by (cases "client ''INSERT INTO my_table(name) VALUES($1);'' (Some [n]) db") auto
    with add show ?thesis
      by (cases a) (simp_all add: route_add recording_def del: number_to_string.simps)
  next
    case other
    then show ?thesis by (simp add: route_other)
  qed
qed

lemma requestHandler_recording:
  assumes "newURL (url req) ''http://localhost:8080'' = Inr u"
  shows "session (requestHandler newURL (recording client) req (received, db))
           = (received @ issued (requestHandler newURL client req db),
              session (requestHandler newURL client req db))"
    and "response (requestHandler newURL (recording client) req (received, db))
           = response (requestHandler newURL client req db)"
proof -
  obtain r qs d where rt: "route client u (name_param u) db = (r, qs, d)"
    by (cases "route client u (name_param u) db") auto
  then have rr: "route (recording client) u (name_param u) (received, db)
                   = (r, qs, (received @ qs, d))"
    by (simp add: route_recording)
  show "session (requestHandler newURL (recording client) req (received, db))
           = (received @ issued (requestHandler newURL client req db),
              session (requestHandler newURL client req db))"
  proof (cases r)
    case (Inl e)
    with assms rt rr show ?thesis by (simp add: requestHandler_caught)
  next
    case (Inr p)
    obtain obj code where "p = (obj, code)" by (cases p) auto
    with Inr assms rt rr show ?thesis by (simp add: requestHandler_answered)
  qed
  show "response (requestHandler newURL (recording client) req (received, db))
           = response (requestHandler newURL client req db)"
  proof (cases r)
    case (Inl e)
    with assms rt rr show ?thesis by (simp add: requestHandler_caught)
  next
    case (Inr p)
    obtain obj code where "p = (obj, code)" by (cases p) auto
    with Inr assms rt rr show ?thesis by (simp add: requestHandler_answered)
  qed
qed

section \<open>The claims\<close>

text \<open>
  Claim C1, with the condition it needs. Take any name \<open>X\<close>. A request to \<^verbatim>\<open>/add\<close> whose
  \<^verbatim>\<open>name\<close> parameter is \<open>X\<close> is handled and succeeds (its response has code 200); next a
  request to \<^verbatim>\<open>/read\<close> with the same \<^verbatim>\<open>name\<close> is handled on the resulting table, and its
  query does not fail. Then the second response has code 200 and its body is an array of
  rows that is not empty and holds a row whose name is \<open>X\<close>.
\<close>

theorem add_then_read_returns_record:
  assumes "newURL (url req_add) ''http://localhost:8080'' = Inr u_add"
    and "pathname u_add = ''/add''"
    and "searchParams_get (searchParams u_add) ''name'' = Some X"
    and "response (requestHandler newURL (session_query ev_add) req_add db) = Some (200, body)"
    and "newURL (url req_read) ''http://localhost:8080'' = Inr u_read"
    and "pathname u_read = ''/read''"
    and "searchParams_get (searchParams u_read) ''name'' = Some X"
    and "fault ev_read = None"
  shows "\<exists>rs. response (requestHandler newURL (session_query ev_read) req_read
                        (session (requestHandler newURL (session_query ev_add) req_add db)))
                = Some (200, Rows rs)
              \<and> rs \<noteq> [] \<and> (\<exists>r \<in> set rs. row_name r = Some X)"
proof -
  let ?db' = "session (requestHandler newURL (session_query ev_add) req_add db)"
  let ?new = "\<lparr>row_id = next_id db, row_name = Some X, row_date = now ev_add\<rparr>"
  have ok: "fault ev_add = None"
  proof (cases "fault ev_add")
    case None
    then show ?thesis .
  next
    case (Some e)
    from handler_fault [OF this, of newURL req_add db] assms(4) show ?thesis by simp
  qed
  have na: "name_param u_add = X" and nr: "name_param u_read = X"
    using assms(3,7) by (simp_all add: name_param_present)
  have tb: "table ?db' = table db @ [?new]"
    using handler_add [of newURL req_add u_add ev_add db] assms(1,2) ok na by simp
  have rd: "response (requestHandler newURL (session_query ev_read) req_read ?db')
              = Some (200, Rows (filter (\<lambda>r. row_name r = Some X) (table ?db')))"
    using handler_read [of newURL req_read u_read ev_read ?db'] assms(5,6,8) nr by simp
  have inn: "?new \<in> set (filter (\<lambda>r. row_name r = Some X) (table ?db'))"
    using tb by simp
  then have "filter (\<lambda>r. row_name r = Some X) (table ?db') \<noteq> []"
    by (metis empty_iff empty_set)
  moreover have "\<exists>r \<in> set (filter (\<lambda>r. row_name r = Some X) (table ?db')). row_name r = Some X"
    using inn by (intro bexI [of _ ?new]) simp_all
  ultimately show ?thesis using rd by blast
qed

text \<open>An instance of the theorem on the example requests.\<close>

theorem add_then_read_returns_record_witness:
  "response (requestHandler example_newURL (session_query \<lparr>fault = None, now = 7\<rparr>)
      \<lparr>method = ''GET'', url = ''/add?name=bob''\<rparr> \<lparr>table = [], next_id = 1\<rparr>)
     = Some (200, Confirmation True (''Inserted 1 row with name '' @ [CHR 0x27] @ ''bob'' @ [CHR 0x27]))
   \<and> (\<exists>rs. response (requestHandler example_newURL (session_query \<lparr>fault = None, now = 8\<rparr>)
               \<lparr>method = ''GET'', url = ''/read?name=bob''\<rparr>
               (session (requestHandler example_newURL (session_query \<lparr>fault = None, now = 7\<rparr>)
                  \<lparr>method = ''GET'', url = ''/add?name=bob''\<rparr> \<lparr>table = [], next_id = 1\<rparr>)))
             = Some (200, Rows rs)
           \<and> rs \<noteq> [] \<and> (\<exists>r \<in> set rs. row_name r = Some ''bob''))"
proof -
  let ?ra = "\<lparr>method = ''GET'', url = ''/add?name=bob''\<rparr>"
  let ?ua = "\<lparr>pathname = ''/add'', searchParams = [(''name'', ''bob'')]\<rparr>"
  let ?rr = "\<lparr>method = ''GET'', url = ''/read?name=bob''\<rparr>"
  let ?ur = "\<lparr>pathname = ''/read'', searchParams = [(''name'', ''bob'')]\<rparr>"
  let ?ea = "\<lparr>fault = None, now = 7\<rparr>"
  let ?er = "\<lparr>fault = None, now = 8\<rparr>"
  let ?db = "\<lparr>table = [], next_id = 1\<rparr>"
  let ?body = "Confirmation True (''Inserted 1 row with name '' @ [CHR 0x27] @ ''bob'' @ [CHR 0x27])"
  have h1: "example_newURL (url ?ra) ''http://localhost:8080'' = Inr ?ua"
    and h5: "example_newURL (url ?rr) ''http://localhost:8080'' = Inr ?ur"
    by (simp_all add: example_newURL_def)
  have h2: "pathname ?ua = ''/add''"
    and h3: "searchParams_get (searchParams ?ua) ''name'' = Some ''bob''"
    and h6: "pathname ?ur = ''/read''"
    and h7: "searchParams_get (searchParams ?ur) ''name'' = Some ''bob''"
    and h8: "fault ?er = None"
    by simp_all
  have h4: "response (requestHandler example_newURL (session_query ?ea) ?ra ?db) = Some (200, ?body)"
    using handler_add [where newURL = example_newURL and ev = ?ea and db = ?db, OF h1 h2]
    by (simp add: name_param_def)
  from add_then_read_returns_record [where newURL = example_newURL, OF h1 h2 h3 h4 h5 h6 h7 h8] h4
  show ?thesis by blast
qed

text \<open>
  Without the condition on the query of the read the statement fails: after a successful
  insert of \<^verbatim>\<open>bob\<close>, a request to \<^verbatim>\<open>/read?name=bob\<close> whose query throws is answered with 500
  and a string, not with 200 and an array.
\<close>

theorem failed_read_after_add_answers_500:
  "response (requestHandler example_newURL (session_query \<lparr>fault = None, now = 7\<rparr>)
      \<lparr>method = ''GET'', url = ''/add?name=bob''\<rparr> \<lparr>table = [], next_id = 1\<rparr>)
     = Some (200, Confirmation True (''Inserted 1 row with name '' @ [CHR 0x27] @ ''bob'' @ [CHR 0x27]))
   \<and> response (requestHandler example_newURL
        (session_query \<lparr>fault = Some (Error ''Connection terminated''), now = 8\<rparr>)
        \<lparr>method = ''GET'', url = ''/read?name=bob''\<rparr>
        (session (requestHandler example_newURL (session_query \<lparr>fault = None, now = 7\<rparr>)
           \<lparr>method = ''GET'', url = ''/add?name=bob''\<rparr> \<lparr>table = [], next_id = 1\<rparr>)))
     = Some (500, Text ''Some error happened :(( -- (error: Connection terminated)'')"
  by (simp add: requestHandler_def route_def jsonResponse_def session_query_def name_param_def
      example_newURL_def digit_def Let_def)

text \<open>
  Claim C2, with the condition it needs. When the query does not fail: a request whose
  path is empty or \<^verbatim>\<open>/\<close> is answered with 200 and the array of all rows of the table; a
  request to \<^verbatim>\<open>/read\<close> is answered with 200 and the array of exactly the rows whose name
  equals the name parameter; and when no row of the table has that name, the answer to
  \<^verbatim>\<open>/read\<close> is 200 with the empty array. Neither request changes the table.
\<close>

theorem read_routes_return_records:
  assumes "newURL (url req) ''http://localhost:8080'' = Inr u"
    and "fault ev = None"
  shows "(pathname u = [] \<or> pathname u = ''/'' \<longrightarrow>
            response (requestHandler newURL (session_query ev) req db)
              = Some (200, Rows (table db))
            \<and> session (requestHandler newURL (session_query ev) req db) = db)
       \<and> (pathname u = ''/read'' \<longrightarrow>
            response (requestHandler newURL (session_query ev) req db)
              = Some (200, Rows (filter (\<lambda>r. row_name r = Some (name_param u)) (table db)))
            \<and> session (requestHandler newURL (session_query ev) req db) = db)
       \<and> (pathname u = ''/read'' \<and> (\<forall>r \<in> set (table db). row_name r \<noteq> Some (name_param u)) \<longrightarrow>
            response (requestHandler newURL (session_query ev) req db) = Some (200, Rows []))"
proof -
  have d: "pathname u = [] \<or> pathname u = ''/'' \<longrightarrow>
            response (requestHandler newURL (session_query ev) req db)
              = Some (200, Rows (table db))
            \<and> session (requestHandler newURL (session_query ev) req db) = db"
    using handler_default [of newURL req u ev db] assms by simp
  have r: "pathname u = ''/read'' \<longrightarrow>
            response (requestHandler newURL (session_query ev) req db)
              = Some (200, Rows (filter (\<lambda>r. row_name r = Some (name_param u)) (table db)))
            \<and> session (requestHandler newURL (session_query ev) req db) = db"
    using handler_read [of newURL req u ev db] assms by simp
  have "(\<forall>r \<in> set (table db). row_name r \<noteq> Some (name_param u)) \<longrightarrow>
          filter (\<lambda>r. row_name r = Some (name_param u)) (table db) = []"
    by (simp add: filter_empty_conv)
  with r have e: "pathname u = ''/read'' \<and> (\<forall>r \<in> set (table db). row_name r \<noteq> Some (name_param u)) \<longrightarrow>
            response (requestHandler newURL (session_query ev) req db) = Some (200, Rows [])"
    by simp
  from d r e show ?thesis by blast
qed

text \<open>An instance of the theorem on the example requests.\<close>

theorem read_routes_return_records_witness:
  "example_newURL (url \<lparr>method = ''GET'', url = ''/read?name=eve''\<rparr>) ''http://localhost:8080''
     = Inr \<lparr>pathname = ''/read'', searchParams = [(''name'', ''eve'')]\<rparr>
   \<and> example_newURL (url \<lparr>method = ''GET'', url = ''/''\<rparr>) ''http://localhost:8080''
     = Inr \<lparr>pathname = ''/'', searchParams = []\<rparr>
   \<and> fault \<lparr>fault = None, now = 0\<rparr> = None
   \<and> response (requestHandler example_newURL (session_query \<lparr>fault = None, now = 0\<rparr>)
        \<lparr>method = ''GET'', url = ''/''\<rparr>
        \<lparr>table = [\<lparr>row_id = 1, row_name = Some ''bob'', row_date = 3\<rparr>,
                  \<lparr>row_id = 2, row_name = Some ''eve'', row_date = 4\<rparr>,
                  \<lparr>row_id = 3, row_name = None, row_date = 5\<rparr>], next_id = 4\<rparr>)
     = Some (200, Rows [\<lparr>row_id = 1, row_name = Some ''bob'', row_date = 3\<rparr>,
                        \<lparr>row_id = 2, row_name = Some ''eve'', row_date = 4\<rparr>,
                        \<lparr>row_id = 3, row_name = None, row_date = 5\<rparr>])
   \<and> response (requestHandler example_newURL (session_query \<lparr>fault = None, now = 0\<rparr>)
        \<lparr>method = ''GET'', url = ''/read?name=eve''\<rparr>
        \<lparr>table = [\<lparr>row_id = 1, row_name = Some ''bob'', row_date = 3\<rparr>,
                  \<lparr>row_id = 2, row_name = Some ''eve'', row_date = 4\<rparr>,
                  \<lparr>row_id = 3, row_name = None, row_date = 5\<rparr>], next_id = 4\<rparr>)
     = Some (200, Rows [\<lparr>row_id = 2, row_name = Some ''eve'', row_date = 4\<rparr>])
   \<and> response (requestHandler example_newURL (session_query \<lparr>fault = None, now = 0\<rparr>)
        \<lparr>method = ''GET'', url = ''/read?name=eve''\<rparr>
        \<lparr>table = [\<lparr>row_id = 1, row_name = Some ''bob'', row_date = 3\<rparr>], next_id = 2\<rparr>)
     = Some (200, Rows [])"
proof -
  let ?r = "\<lparr>method = ''GET'', url = ''/read?name=eve''\<rparr>"
  let ?u = "\<lparr>pathname = ''/read'', searchParams = [(''name'', ''eve'')]\<rparr>"
  let ?q = "\<lparr>method = ''GET'', url = ''/''\<rparr>"
  let ?w = "\<lparr>pathname = ''/'', searchParams = []\<rparr>"
  let ?ev = "\<lparr>fault = None, now = 0\<rparr>"
  let ?three = "\<lparr>table = [\<lparr>row_id = 1, row_name = Some ''bob'', row_date = 3\<rparr>,
                  \<lparr>row_id = 2, row_name = Some ''eve'', row_date = 4\<rparr>,
                  \<lparr>row_id = 3, row_name = None, row_date = 5\<rparr>], next_id = 4\<rparr>"
  let ?one = "\<lparr>table = [\<lparr>row_id = 1, row_name = Some ''bob'', row_date = 3\<rparr>], next_id = 2\<rparr>"
  have h1: "example_newURL (url ?r) ''http://localhost:8080'' = Inr ?u"
    and h0: "example_newURL (url ?q) ''http://localhost:8080'' = Inr ?w"
    by (simp_all add: example_newURL_def)
  have h2: "fault ?ev = None" by simp
  note a = read_routes_return_records [where newURL = example_newURL and db = ?three, OF h1 h2]
  note b = read_routes_return_records [where newURL = example_newURL and db = ?one, OF h1 h2]
  note c = read_routes_return_records [where newURL = example_newURL and db = ?three, OF h0 h2]
  from a b c h1 h0 show ?thesis by (simp add: name_param_def)
qed

text \<open>
  Without the condition on the query the statement fails: a request to \<^verbatim>\<open>/\<close> and a
  request to \<^verbatim>\<open>/read\<close> whose query throws are answered with 500 and a string.
\<close>

theorem failed_select_answers_500:
  "response (requestHandler example_newURL
      (session_query \<lparr>fault = Some (Error ''Connection terminated''), now = 0\<rparr>)
      \<lparr>method = ''GET'', url = ''/''\<rparr>
      \<lparr>table = [\<lparr>row_id = 1, row_name = Some ''bob'', row_date = 3\<rparr>], next_id = 2\<rparr>)
     = Some (500, Text ''Some error happened :(( -- (error: Connection terminated)'')
   \<and> response (requestHandler example_newURL
      (session_query \<lparr>fault = Some (Error ''Connection terminated''), now = 0\<rparr>)
      \<lparr>method = ''GET'', url = ''/read?name=eve''\<rparr>
      \<lparr>table = [\<lparr>row_id = 1, row_name = Some ''bob'', row_date = 3\<rparr>], next_id = 2\<rparr>)
     = Some (500, Text ''Some error happened :(( -- (error: Connection terminated)'')"
  by (simp add: requestHandler_def route_def jsonResponse_def session_query_def name_param_def
      example_newURL_def Let_def)

text \<open>
  Claim C3, with the condition it needs. When the query does not fail, a request to
  \<^verbatim>\<open>/add\<close> with name parameter \<open>X\<close> (the given value, or the default) makes exactly one
  query, after which the table is the old table followed by one new row whose name is
  \<open>X\<close>, and the response is 200 with the object
  \<^verbatim>\<open>{success: true, message: "Inserted 1 row with name 'X'"}\<close>.
\<close>

theorem add_inserts_one_record:
  assumes "newURL (url req) ''http://localhost:8080'' = Inr u"
    and "pathname u = ''/add''"
    and "fault ev = None"
  shows "table (session (requestHandler newURL (session_query ev) req db))
           = table db @ [\<lparr>row_id = next_id db, row_name = Some (name_param u), row_date = now ev\<rparr>]
       \<and> response (requestHandler newURL (session_query ev) req db)
           = Some (200, Confirmation True
                          (''Inserted 1 row with name '' @ [CHR 0x27] @ name_param u @ [CHR 0x27]))
       \<and> issued (requestHandler newURL (session_query ev) req db)
           = [\<lparr>sql = ''INSERT INTO my_table(name) VALUES($1);'', params = Some [name_param u]\<rparr>]"
  using handler_add [of newURL req u ev db] assms by simp

text \<open>An instance of the theorem on the example requests.\<close>

theorem add_inserts_one_record_witness:
  "example_newURL (url \<lparr>method = ''GET'', url = ''/add?name=bob''\<rparr>) ''http://localhost:8080''
     = Inr \<lparr>pathname = ''/add'', searchParams = [(''name'', ''bob'')]\<rparr>
   \<and> table (session (requestHandler example_newURL (session_query \<lparr>fault = None, now = 8\<rparr>)
        \<lparr>method = ''GET'', url = ''/add?name=bob''\<rparr>
        \<lparr>table = [\<lparr>row_id = 1, row_name = Some ''bob'', row_date = 3\<rparr>], next_id = 2\<rparr>))
     = [\<lparr>row_id = 1, row_name = Some ''bob'', row_date = 3\<rparr>,
        \<lparr>row_id = 2, row_name = Some ''bob'', row_date = 8\<rparr>]
   \<and> response (requestHandler example_newURL (session_query \<lparr>fault = None, now = 8\<rparr>)
        \<lparr>method = ''GET'', url = ''/add?name=bob''\<rparr>
        \<lparr>table = [\<lparr>row_id = 1, row_name = Some ''bob'', row_date = 3\<rparr>], next_id = 2\<rparr>)
     = Some (200, Confirmation True (''Inserted 1 row with name '' @ [CHR 0x27] @ ''bob'' @ [CHR 0x27]))"
proof -
  let ?r = "\<lparr>method = ''GET'', url = ''/add?name=bob''\<rparr>"
  let ?u = "\<lparr>pathname = ''/add'', searchParams = [(''name'', ''bob'')]\<rparr>"
  let ?ev = "\<lparr>fault = None, now = 8\<rparr>"
  have h1: "example_newURL (url ?r) ''http://localhost:8080'' = Inr ?u"
    by (simp add: example_newURL_def)
  have h2: "pathname ?u = ''/add''" and h3: "fault ?ev = None" by simp_all
  from add_inserts_one_record [where newURL = example_newURL
      and db = "\<lparr>table = [\<lparr>row_id = 1, row_name = Some ''bob'', row_date = 3\<rparr>], next_id = 2\<rparr>",
      OF h1 h2 h3] h1
  show ?thesis by (simp add: name_param_def)
qed

text \<open>
  Without the condition on the query the statement fails: a request to \<^verbatim>\<open>/add\<close> whose
  query throws is answered with 500 and a string, and no row has been added.
\<close>

theorem failed_insert_answers_500:
  "response (requestHandler example_newURL
      (session_query \<lparr>fault = Some (Error ''Connection terminated''), now = 8\<rparr>)
      \<lparr>method = ''GET'', url = ''/add?name=bob''\<rparr> \<lparr>table = [], next_id = 1\<rparr>)
     = Some (500, Text ''Some error happened :(( -- (error: Connection terminated)'')
   \<and> table (session (requestHandler example_newURL
      (session_query \<lparr>fault = Some (Error ''Connection terminated''), now = 8\<rparr>)
      \<lparr>method = ''GET'', url = ''/add?name=bob''\<rparr> \<lparr>table = [], next_id = 1\<rparr>)) = []"
  by (simp add: requestHandler_def route_def jsonResponse_def session_query_def name_param_def
      example_newURL_def Let_def)

text \<open>
  Claim C4. For every session and every request whose path is none of the empty path,
  \<^verbatim>\<open>/\<close>, \<^verbatim>\<open>/read\<close> and \<^verbatim>\<open>/add\<close>: the handler makes no query, leaves the state behind the
  session as it was, and responds with code 404 and the string
  \<^verbatim>\<open>The requested route doesn't exist :(\<close>.
\<close>

theorem unknown_path_not_found:
  assumes "newURL (url req) ''http://localhost:8080'' = Inr requestUrl"
    and "pathname requestUrl \<noteq> ''''" and "pathname requestUrl \<noteq> ''/''"
    and "pathname requestUrl \<noteq> ''/read''" and "pathname requestUrl \<noteq> ''/add''"
  shows "response (requestHandler newURL client req db)
           = Some (404, Text ''The requested route doesn't exist :('')
       \<and> issued (requestHandler newURL client req db) = []
       \<and> session (requestHandler newURL client req db) = db
       \<and> uncaught (requestHandler newURL client req db) = None
       \<and> logged (requestHandler newURL client req db) = [(method req, url req, 404)]"
  using assms by (simp add: requestHandler_answered route_other)

text \<open>An instance of the theorem on the example requests.\<close>

theorem unknown_path_not_found_witness:
  "example_newURL (url \<lparr>method = ''GET'', url = ''/delete''\<rparr>) ''http://localhost:8080''
     = Inr \<lparr>pathname = ''/delete'', searchParams = []\<rparr>
   \<and> response (requestHandler example_newURL (session_query \<lparr>fault = None, now = 0\<rparr>)
        \<lparr>method = ''GET'', url = ''/delete''\<rparr>
        \<lparr>table = [\<lparr>row_id = 1, row_name = Some ''bob'', row_date = 0\<rparr>], next_id = 2\<rparr>)
       = Some (404, Text ''The requested route doesn't exist :('')
   \<and> issued (requestHandler example_newURL (session_query \<lparr>fault = None, now = 0\<rparr>)
        \<lparr>method = ''GET'', url = ''/delete''\<rparr>
        \<lparr>table = [\<lparr>row_id = 1, row_name = Some ''bob'', row_date = 0\<rparr>], next_id = 2\<rparr>) = []
   \<and> session (requestHandler example_newURL (session_query \<lparr>fault = None, now = 0\<rparr>)
        \<lparr>method = ''GET'', url = ''/delete''\<rparr>
        \<lparr>table = [\<lparr>row_id = 1, row_name = Some ''bob'', row_date = 0\<rparr>], next_id = 2\<rparr>)
       = \<lparr>table = [\<lparr>row_id = 1, row_name = Some ''bob'', row_date = 0\<rparr>], next_id = 2\<rparr>"
  using unknown_path_not_found [where newURL = example_newURL and req = "\<lparr>method = ''GET'', url = ''/delete''\<rparr>"
      and requestUrl = "\<lparr>pathname = ''/delete'', searchParams = []\<rparr>"
      and client = "session_query \<lparr>fault = None, now = 0\<rparr>"
      and db = "\<lparr>table = [\<lparr>row_id = 1, row_name = Some ''bob'', row_date = 0\<rparr>], next_id = 2\<rparr>"]
  by (simp add: example_newURL_def)



text \<open>
  Claim C6. A request without a \<^verbatim>\<open>name\<close> parameter is answered, on every session, exactly
  as a request to the same path with \<^verbatim>\<open>name=john\<close>: same response, same queries, same state
  afterwards. For \<^verbatim>\<open>/add\<close> the state behind the session afterwards is the one that the
  client's insert with the single bound value \<^verbatim>\<open>john\<close> leaves, and the response relays the
  result of that call: 200 with the confirmation that names \<^verbatim>\<open>john\<close>, or 500 with the
  message of the error. For \<^verbatim>\<open>/read\<close> the state and the response are those of the client's
  select with the single bound value \<^verbatim>\<open>john\<close>: 200 with the rows it returned, or 500.
\<close>

theorem omitted_name_defaults_to_john:
  assumes "newURL (url req) ''http://localhost:8080'' = Inr u"
    and "searchParams_get (searchParams u) ''name'' = None"
    and "newURL (url req') ''http://localhost:8080'' = Inr u'"
    and "pathname u' = pathname u"
    and "searchParams_get (searchParams u') ''name'' = Some ''john''"
  shows "response (requestHandler newURL client req db)
           = response (requestHandler newURL client req' db)
       \<and> issued (requestHandler newURL client req db)
           = issued (requestHandler newURL client req' db)
       \<and> session (requestHandler newURL client req db)
           = session (requestHandler newURL client req' db)
       \<and> uncaught (requestHandler newURL client req db)
           = uncaught (requestHandler newURL client req' db)
       \<and> (pathname u = ''/add'' \<longrightarrow>
            session (requestHandler newURL client req db)
              = snd (client ''INSERT INTO my_table(name) VALUES($1);'' (Some [''john'']) db)
            \<and> response (requestHandler newURL client req db)
              = (case fst (client ''INSERT INTO my_table(name) VALUES($1);''
                             (Some [''john'']) db) of
                   Inl e \<Rightarrow>
                     Some (500, Text (''Some error happened :(( -- (error: '' @ message e @ '')''))
                 | Inr insertRow \<Rightarrow>
                     Some (200, Confirmation True
                             (''Inserted '' @ number_to_string (rowCount insertRow)
                                @ '' row with name '' @ [CHR 0x27] @ ''john'' @ [CHR 0x27])))
            \<and> issued (requestHandler newURL client req db)
              = [\<lparr>sql = ''INSERT INTO my_table(name) VALUES($1);'', params = Some [''john'']\<rparr>])
       \<and> (pathname u = ''/read'' \<longrightarrow>
            session (requestHandler newURL client req db)
              = snd (client ''SELECT * FROM my_table WHERE name = $1;'' (Some [''john'']) db)
            \<and> response (requestHandler newURL client req db)
              = (case fst (client ''SELECT * FROM my_table WHERE name = $1;''
                             (Some [''john'']) db) of
                   Inl e \<Rightarrow>
                     Some (500, Text (''Some error happened :(( -- (error: '' @ message e @ '')''))
                 | Inr entries \<Rightarrow> Some (200, Rows (rows entries)))
            \<and> issued (requestHandler newURL client req db)
              = [\<lparr>sql = ''SELECT * FROM my_table WHERE name = $1;'', params = Some [''john'']\<rparr>])"
proof -
  let ?out = "requestHandler newURL client req db"
  have n: "name_param u = ''john''" "name_param u' = ''john''"
    using assms(2,5) by (simp_all add: name_param_absent name_param_present)
  have "route client u' (name_param u') db = route client u (name_param u) db"
    using n route_pathname_only [OF assms(4), of client "''john''" db] by simp
  with requestHandler_same_route [of newURL req u req' u' client db] assms(1,3)
  have same: "response ?out = response (requestHandler newURL client req' db)
       \<and> issued ?out = issued (requestHandler newURL client req' db)
       \<and> session ?out = session (requestHandler newURL client req' db)
       \<and> uncaught ?out = uncaught (requestHandler newURL client req' db)"
    by simp
  have iss: "issued ?out =
     (if pathname u = [] \<or> pathname u = ''/'' then
        [\<lparr>sql = ''SELECT * FROM my_table;'', params = None\<rparr>]
      else if pathname u = ''/read'' then
        [\<lparr>sql = ''SELECT * FROM my_table WHERE name = $1;'', params = Some [''john'']\<rparr>]
      else if pathname u = ''/add'' then
        [\<lparr>sql = ''INSERT INTO my_table(name) VALUES($1);'', params = Some [''john'']\<rparr>]
      else [])"
    using issued_requestHandler [of newURL req u client db] assms(1) n(1) by simp
  have add: "pathname u = ''/add'' \<longrightarrow>
            session ?out
              = snd (client ''INSERT INTO my_table(name) VALUES($1);'' (Some [''john'']) db)
            \<and> response ?out
              = (case fst (client ''INSERT INTO my_table(name) VALUES($1);''
                             (Some [''john'']) db) of
                   Inl e \<Rightarrow>
                     Some (500, Text (''Some error happened :(( -- (error: '' @ message e @ '')''))
                 | Inr insertRow \<Rightarrow>
                     Some (200, Confirmation True
                             (''Inserted '' @ number_to_string (rowCount insertRow)
                                @ '' row with name '' @ [CHR 0x27] @ ''john'' @ [CHR 0x27])))
            \<and> issued ?out
              = [\<lparr>sql = ''INSERT INTO my_table(name) VALUES($1);'', params = Some [''john'']\<rparr>]"
  proof
    assume p: "pathname u = ''/add''"
    from requestHandler_add_outcome [where newURL = newURL and client = client and db = db,
        OF assms(1) p, unfolded n(1)] iss p
    show "session ?out
              = snd (client ''INSERT INTO my_table(name) VALUES($1);'' (Some [''john'']) db)
            \<and> response ?out
              = (case fst (client ''INSERT INTO my_table(name) VALUES($1);''
                             (Some [''john'']) db) of
                   Inl e \<Rightarrow>
                     Some (500, Text (''Some error happened :(( -- (error: '' @ message e @ '')''))
                 | Inr insertRow \<Rightarrow>
                     Some (200, Confirmation True
                             (''Inserted '' @ number_to_string (rowCount insertRow)
                                @ '' row with name '' @ [CHR 0x27] @ ''john'' @ [CHR 0x27])))
            \<and> issued ?out
              = [\<lparr>sql = ''INSERT INTO my_table(name) VALUES($1);'', params = Some [''john'']\<rparr>]"
      by (simp del: number_to_string.simps)
  qed
  have read: "pathname u = ''/read'' \<longrightarrow>
            session ?out
              = snd (client ''SELECT * FROM my_table WHERE name = $1;'' (Some [''john'']) db)
            \<and> response ?out
              = (case fst (client ''SELECT * FROM my_table WHERE name = $1;''
                             (Some [''john'']) db) of
                   Inl e \<Rightarrow>
                     Some (500, Text (''Some error happened :(( -- (error: '' @ message e @ '')''))
                 | Inr entries \<Rightarrow> Some (200, Rows (rows entries)))
            \<and> issued ?out
              = [\<lparr>sql = ''SELECT * FROM my_table WHERE name = $1;'', params = Some [''john'']\<rparr>]"
  proof
    assume p: "pathname u = ''/read''"
    from requestHandler_read_outcome [where newURL = newURL and client = client and db = db,
        OF assms(1) p, unfolded n(1)] iss p
    show "session ?out
              = snd (client ''SELECT * FROM my_table WHERE name = $1;'' (Some [''john'']) db)
            \<and> response ?out
              = (case fst (client ''SELECT * FROM my_table WHERE name = $1;''
                             (Some [''john'']) db) of
                   Inl e \<Rightarrow>
                     Some (500, Text (''Some error happened :(( -- (error: '' @ message e @ '')''))
                 | Inr entries \<Rightarrow> Some (200, Rows (rows entries)))
            \<and> issued ?out
              = [\<lparr>sql = ''SELECT * FROM my_table WHERE name = $1;'', params = Some [''john'']\<rparr>]"
      by simp
  qed
  from same add read show ?thesis by blast
qed

text \<open>An instance of the theorem on the example requests.\<close>

theorem omitted_name_defaults_to_john_witness:
  "example_newURL (url \<lparr>method = ''GET'', url = ''/add''\<rparr>) ''http://localhost:8080''
     = Inr \<lparr>pathname = ''/add'', searchParams = []\<rparr>
   \<and> searchParams_get (searchParams \<lparr>pathname = ''/add'', searchParams = []\<rparr>) ''name'' = None
   \<and> example_newURL (url \<lparr>method = ''GET'', url = ''/add?name=john''\<rparr>) ''http://localhost:8080''
     = Inr \<lparr>pathname = ''/add'', searchParams = [(''name'', ''john'')]\<rparr>
   \<and> response (requestHandler example_newURL (session_query \<lparr>fault = None, now = 6\<rparr>)
        \<lparr>method = ''GET'', url = ''/add''\<rparr> \<lparr>table = [], next_id = 1\<rparr>)
     = response (requestHandler example_newURL (session_query \<lparr>fault = None, now = 6\<rparr>)
        \<lparr>method = ''GET'', url = ''/add?name=john''\<rparr> \<lparr>table = [], next_id = 1\<rparr>)
   \<and> session (requestHandler example_newURL (session_query \<lparr>fault = None, now = 6\<rparr>)
        \<lparr>method = ''GET'', url = ''/add''\<rparr> \<lparr>table = [], next_id = 1\<rparr>)
     = \<lparr>table = [\<lparr>row_id = 1, row_name = Some ''john'', row_date = 6\<rparr>], next_id = 2\<rparr>
   \<and> response (requestHandler example_newURL (session_query \<lparr>fault = None, now = 6\<rparr>)
        \<lparr>method = ''GET'', url = ''/add''\<rparr> \<lparr>table = [], next_id = 1\<rparr>)
     = Some (200, Confirmation True
                    (''Inserted 1 row with name '' @ [CHR 0x27] @ ''john'' @ [CHR 0x27]))"
proof -
  let ?r = "\<lparr>method = ''GET'', url = ''/add''\<rparr>"
  let ?r' = "\<lparr>method = ''GET'', url = ''/add?name=john''\<rparr>"
  let ?u = "\<lparr>pathname = ''/add'', searchParams = []\<rparr>"
  let ?u' = "\<lparr>pathname = ''/add'', searchParams = [(''name'', ''john'')]\<rparr>"
  have h1: "example_newURL (url ?r) ''http://localhost:8080'' = Inr ?u"
    and h3: "example_newURL (url ?r') ''http://localhost:8080'' = Inr ?u'"
    by (simp_all add: example_newURL_def)
  have h2: "searchParams_get (searchParams ?u) ''name'' = None"
    and h4: "pathname ?u' = pathname ?u"
    and h5: "searchParams_get (searchParams ?u') ''name'' = Some ''john''"
    by simp_all
  have q: "session_query \<lparr>fault = None, now = 6\<rparr> ''INSERT INTO my_table(name) VALUES($1);''
             (Some [''john'']) \<lparr>table = [], next_id = 1\<rparr>
           = (Inr \<lparr>rows = [], rowCount = 1\<rparr>,
              \<lparr>table = [\<lparr>row_id = 1, row_name = Some ''john'', row_date = 6\<rparr>], next_id = 2\<rparr>)"
    by (simp add: session_query_def)
  from omitted_name_defaults_to_john [where newURL = example_newURL
      and client = "session_query \<lparr>fault = None, now = 6\<rparr>"
      and db = "\<lparr>table = [], next_id = 1\<rparr>", OF h1 h2 h3 h4 h5] h1 h2 h3 q
  show ?thesis by (auto simp add: digit_def)
qed

text \<open>
  Claim C7, with the condition it needs. The table only grows. Handling one request leaves
  the old table as a prefix of the new one, and a request to any path other than \<^verbatim>\<open>/add\<close>
  leaves the database as it was. So after any sequence of requests the old table is a
  prefix of the table, and a request to \<^verbatim>\<open>/\<close> whose query does not fail is answered with
  200 and an array at least as long as the number of successful \<^verbatim>\<open>/add\<close> calls of the
  sequence.
\<close>

theorem table_only_grows:
  assumes "serve newURL reqs db = (outs, db')"
    and "newURL (url req) ''http://localhost:8080'' = Inr u"
    and "pathname u = [] \<or> pathname u = ''/''"
    and "fault ev = None"
  shows "(\<exists>xs. table db' = table db @ xs)
       \<and> (\<exists>rs. response (requestHandler newURL (session_query ev) req db') = Some (200, Rows rs)
                \<and> count_successful_adds newURL reqs outs \<le> length rs)
       \<and> session (requestHandler newURL (session_query ev) req db') = db'
       \<and> (\<exists>ys. table (session (requestHandler newURL (session_query ev1) req1 db1))
                  = table db1 @ ys)
       \<and> (newURL (url req1) ''http://localhost:8080'' = Inr u1 \<and> pathname u1 \<noteq> ''/add'' \<longrightarrow>
            session (requestHandler newURL (session_query ev1) req1 db1) = db1)"
proof -
  from serve_table [OF assms(1)] obtain xs where
    xs: "table db' = table db @ xs" "count_successful_adds newURL reqs outs \<le> length xs"
    by blast
  have r: "response (requestHandler newURL (session_query ev) req db') = Some (200, Rows (table db'))"
    and s: "session (requestHandler newURL (session_query ev) req db') = db'"
    using handler_default [of newURL req u ev db'] assms(2,3,4) by simp_all
  have "count_successful_adds newURL reqs outs \<le> length (table db')"
    using xs by simp
  with r have c: "\<exists>rs. response (requestHandler newURL (session_query ev) req db') = Some (200, Rows rs)
                \<and> count_successful_adds newURL reqs outs \<le> length rs"
    by blast
  have g: "\<exists>ys. table (session (requestHandler newURL (session_query ev1) req1 db1)) = table db1 @ ys"
    using handler_step [of newURL ev1 req1 db1] by blast
  have n: "newURL (url req1) ''http://localhost:8080'' = Inr u1 \<and> pathname u1 \<noteq> ''/add'' \<longrightarrow>
            session (requestHandler newURL (session_query ev1) req1 db1) = db1"
    using handler_not_add [of newURL req1 u1 ev1 db1] by blast
  from xs(1) c s g n show ?thesis by blast
qed

text \<open>An instance of the theorem on the example requests.\<close>

theorem table_only_grows_witness:
  "count_successful_adds example_newURL example_run
     (fst (serve example_newURL example_run \<lparr>table = [], next_id = 1\<rparr>)) = 2
   \<and> (\<exists>rs. response (requestHandler example_newURL (session_query \<lparr>fault = None, now = 5\<rparr>)
               \<lparr>method = ''GET'', url = ''/''\<rparr>
               (snd (serve example_newURL example_run \<lparr>table = [], next_id = 1\<rparr>)))
             = Some (200, Rows rs)
           \<and> count_successful_adds example_newURL example_run
                (fst (serve example_newURL example_run \<lparr>table = [], next_id = 1\<rparr>)) \<le> length rs)"
proof -
  let ?s = "serve example_newURL example_run \<lparr>table = [], next_id = 1\<rparr>"
  let ?r = "\<lparr>method = ''GET'', url = ''/''\<rparr>"
  let ?u = "\<lparr>pathname = ''/'', searchParams = []\<rparr>"
  let ?ev = "\<lparr>fault = None, now = 5\<rparr>"
  have h1: "?s = (fst ?s, snd ?s)" by simp
  have h2: "example_newURL (url ?r) ''http://localhost:8080'' = Inr ?u"
    by (simp add: example_newURL_def)
  have h3: "pathname ?u = [] \<or> pathname ?u = ''/''" and h4: "fault ?ev = None"
    by simp_all
  have c: "count_successful_adds example_newURL example_run (fst ?s) = 2"
    unfolding serve_example_run
    by (simp add: example_run_def successful_add_def example_newURL_def)
  from table_only_grows [where newURL = example_newURL, OF h1 h2 h3 h4] c
  show ?thesis by blast
qed

text \<open>
  Without the condition on the query the last part fails: after the example run, with its
  two successful inserts, a request to \<^verbatim>\<open>/\<close> whose query throws is answered with 500 and
  a string, not with an array.
\<close>

theorem failed_root_fetch_answers_500:
  "count_successful_adds example_newURL example_run
     (fst (serve example_newURL example_run \<lparr>table = [], next_id = 1\<rparr>)) = 2
   \<and> response (requestHandler example_newURL
        (session_query \<lparr>fault = Some (Error ''Connection terminated''), now = 5\<rparr>)
        \<lparr>method = ''GET'', url = ''/''\<rparr>
        (snd (serve example_newURL example_run \<lparr>table = [], next_id = 1\<rparr>)))
     = Some (500, Text ''Some error happened :(( -- (error: Connection terminated)'')"
  unfolding serve_example_run
  by (simp add: requestHandler_def route_def jsonResponse_def session_query_def name_param_def
      example_newURL_def example_run_def successful_add_def Let_def)

text \<open>
  Claim C8. A client that records the calls it receives gets, from two requests to the
  same path, calls with the same SQL texts, whatever the \<^verbatim>\<open>name\<close> parameters, the wrapped
  clients and the states are. From a request to \<^verbatim>\<open>/read\<close> or to \<^verbatim>\<open>/add\<close> it receives
  exactly one call: its text is the fixed string with the placeholder \<^verbatim>\<open>$1\<close>, and the name
  is the one element of its array of bound values. Recording changes neither the response
  nor the state of the wrapped client, and the calls received are the calls listed in the
  outcome of the handler.
\<close>

theorem sql_text_independent_of_name:
  assumes "newURL (url req1) ''http://localhost:8080'' = Inr u1"
    and "newURL (url req2) ''http://localhost:8080'' = Inr u2"
    and "pathname u1 = pathname u2"
  shows "map sql (fst (session (requestHandler newURL (recording client1) req1 ([], db1))))
           = map sql (fst (session (requestHandler newURL (recording client2) req2 ([], db2))))
       \<and> (pathname u1 = ''/read'' \<longrightarrow>
            fst (session (requestHandler newURL (recording client1) req1 ([], db1)))
              = [\<lparr>sql = ''SELECT * FROM my_table WHERE name = $1;'',
                  params = Some [name_param u1]\<rparr>])
       \<and> (pathname u1 = ''/add'' \<longrightarrow>
            fst (session (requestHandler newURL (recording client1) req1 ([], db1)))
              = [\<lparr>sql = ''INSERT INTO my_table(name) VALUES($1);'',
                  params = Some [name_param u1]\<rparr>])
       \<and> snd (session (requestHandler newURL (recording client1) req1 ([], db1)))
           = session (requestHandler newURL client1 req1 db1)
       \<and> response (requestHandler newURL (recording client1) req1 ([], db1))
           = response (requestHandler newURL client1 req1 db1)
       \<and> fst (session (requestHandler newURL (recording client1) req1 ([], db1)))
           = issued (requestHandler newURL client1 req1 db1)
       \<and> map sql (issued (requestHandler newURL client1 req1 db1))
           = map sql (issued (requestHandler newURL client2 req2 db2))
       \<and> (pathname u1 = ''/read'' \<longrightarrow>
            map sql (issued (requestHandler newURL client1 req1 db1))
              = [''SELECT * FROM my_table WHERE name = $1;'']
            \<and> map params (issued (requestHandler newURL client1 req1 db1))
              = [Some [name_param u1]])
       \<and> (pathname u1 = ''/add'' \<longrightarrow>
            map sql (issued (requestHandler newURL client1 req1 db1))
              = [''INSERT INTO my_table(name) VALUES($1);'']
            \<and> map params (issued (requestHandler newURL client1 req1 db1))
              = [Some [name_param u1]])"
proof -
  have r1: "session (requestHandler newURL (recording client1) req1 ([], db1))
              = (issued (requestHandler newURL client1 req1 db1),
                 session (requestHandler newURL client1 req1 db1))"
    and p1: "response (requestHandler newURL (recording client1) req1 ([], db1))
              = response (requestHandler newURL client1 req1 db1)"
    using requestHandler_recording [where newURL = newURL and client = client1
        and received = "[]" and db = db1, OF assms(1)]
    by simp_all
  have r2: "session (requestHandler newURL (recording client2) req2 ([], db2))
              = (issued (requestHandler newURL client2 req2 db2),
                 session (requestHandler newURL client2 req2 db2))"
    using requestHandler_recording(1) [where newURL = newURL and client = client2
        and received = "[]" and db = db2, OF assms(2)]
    by simp
  note i1 = issued_requestHandler [where newURL = newURL and client = client1 and db = db1,
      OF assms(1)]
  note i2 = issued_requestHandler [where newURL = newURL and client = client2 and db = db2,
      OF assms(2)]
  show ?thesis
    unfolding r1 r2 p1 i1 i2 using assms(3) by simp
qed

text \<open>An instance of the theorem on the example requests.\<close>

theorem sql_text_independent_of_name_witness:
  "example_newURL (url \<lparr>method = ''GET'', url = ''/read?name=bob''\<rparr>) ''http://localhost:8080''
     = Inr \<lparr>pathname = ''/read'', searchParams = [(''name'', ''bob'')]\<rparr>
   \<and> example_newURL (url \<lparr>method = ''GET'', url = ''/read?name=eve''\<rparr>) ''http://localhost:8080''
     = Inr \<lparr>pathname = ''/read'', searchParams = [(''name'', ''eve'')]\<rparr>
   \<and> fst (session (requestHandler example_newURL
               (recording (session_query \<lparr>fault = None, now = 0\<rparr>))
               \<lparr>method = ''GET'', url = ''/read?name=bob''\<rparr> ([], \<lparr>table = [], next_id = 1\<rparr>)))
     = [\<lparr>sql = ''SELECT * FROM my_table WHERE name = $1;'', params = Some [''bob'']\<rparr>]
   \<and> map sql (fst (session (requestHandler example_newURL
               (recording (session_query \<lparr>fault = None, now = 0\<rparr>))
               \<lparr>method = ''GET'', url = ''/read?name=bob''\<rparr> ([], \<lparr>table = [], next_id = 1\<rparr>))))
     = map sql (fst (session (requestHandler example_newURL
               (recording (session_query \<lparr>fault = None, now = 0\<rparr>))
               \<lparr>method = ''GET'', url = ''/read?name=eve''\<rparr> ([], \<lparr>table = [], next_id = 1\<rparr>))))"
proof -
  let ?r1 = "\<lparr>method = ''GET'', url = ''/read?name=bob''\<rparr>"
  let ?r2 = "\<lparr>method = ''GET'', url = ''/read?name=eve''\<rparr>"
  let ?a = "\<lparr>pathname = ''/read'', searchParams = [(''name'', ''bob'')]\<rparr>"
  let ?b = "\<lparr>pathname = ''/read'', searchParams = [(''name'', ''eve'')]\<rparr>"
  have h1: "example_newURL (url ?r1) ''http://localhost:8080'' = Inr ?a"
    and h2: "example_newURL (url ?r2) ''http://localhost:8080'' = Inr ?b"
    by (simp_all add: example_newURL_def)
  have h3: "pathname ?a = pathname ?b" by simp
  from sql_text_independent_of_name [where newURL = example_newURL
      and ?client1.0 = "session_query \<lparr>fault = None, now = 0\<rparr>"
      and ?client2.0 = "session_query \<lparr>fault = None, now = 0\<rparr>"
      and ?db1.0 = "\<lparr>table = [], next_id = 1\<rparr>" and ?db2.0 = "\<lparr>table = [], next_id = 1\<rparr>",
      OF h1 h2 h3] h1 h2
  show ?thesis by (auto simp add: name_param_def)
qed

text \<open>
  Claim C9. When the \<^verbatim>\<open>name\<close> parameter is present with the empty string as its value, the
  name used is the empty string, not \<^verbatim>\<open>john\<close>. For \<^verbatim>\<open>/add\<close> the state behind the session
  afterwards is the one that the client's insert with the empty string as single bound value
  leaves, and the response relays the result of that call; for \<^verbatim>\<open>/read\<close> the state and the
  response are those of the client's select with the empty string as single bound value.
  A value that is present is used as it is; \<^verbatim>\<open>john\<close> is used only when the parameter is
  absent.
\<close>

theorem empty_name_not_defaulted:
  assumes "newURL (url req) ''http://localhost:8080'' = Inr u"
    and "searchParams_get (searchParams u) ''name'' = Some []"
  shows "name_param u = [] \<and> name_param u \<noteq> ''john''
       \<and> (pathname u = ''/add'' \<longrightarrow>
            session (requestHandler newURL client req db)
              = snd (client ''INSERT INTO my_table(name) VALUES($1);'' (Some [[]]) db)
            \<and> response (requestHandler newURL client req db)
              = (case fst (client ''INSERT INTO my_table(name) VALUES($1);'' (Some [[]]) db) of
                   Inl e \<Rightarrow>
                     Some (500, Text (''Some error happened :(( -- (error: '' @ message e @ '')''))
                 | Inr insertRow \<Rightarrow>
                     Some (200, Confirmation True
                             (''Inserted '' @ number_to_string (rowCount insertRow)
                                @ '' row with name '' @ [CHR 0x27] @ [] @ [CHR 0x27])))
            \<and> issued (requestHandler newURL client req db)
              = [\<lparr>sql = ''INSERT INTO my_table(name) VALUES($1);'', params = Some [[]]\<rparr>])
       \<and> (pathname u = ''/read'' \<longrightarrow>
            session (requestHandler newURL client req db)
              = snd (client ''SELECT * FROM my_table WHERE name = $1;'' (Some [[]]) db)
            \<and> response (requestHandler newURL client req db)
              = (case fst (client ''SELECT * FROM my_table WHERE name = $1;'' (Some [[]]) db) of
                   Inl e \<Rightarrow>
                     Some (500, Text (''Some error happened :(( -- (error: '' @ message e @ '')''))
                 | Inr entries \<Rightarrow> Some (200, Rows (rows entries)))
            \<and> issued (requestHandler newURL client req db)
              = [\<lparr>sql = ''SELECT * FROM my_table WHERE name = $1;'', params = Some [[]]\<rparr>])
       \<and> (searchParams_get (searchParams u') ''name'' = Some v \<longrightarrow> name_param u' = v)
       \<and> (searchParams_get (searchParams u') ''name'' = None \<longrightarrow> name_param u' = ''john'')"
proof -
  let ?out = "requestHandler newURL client req db"
  have n: "name_param u = []"
    using assms(2) by (simp add: name_param_present)
  have iss: "issued ?out =
     (if pathname u = [] \<or> pathname u = ''/'' then
        [\<lparr>sql = ''SELECT * FROM my_table;'', params = None\<rparr>]
      else if pathname u = ''/read'' then
        [\<lparr>sql = ''SELECT * FROM my_table WHERE name = $1;'', params = Some [[]]\<rparr>]
      else if pathname u = ''/add'' then
        [\<lparr>sql = ''INSERT INTO my_table(name) VALUES($1);'', params = Some [[]]\<rparr>]
      else [])"
    using issued_requestHandler [of newURL req u client db] assms(1) n by simp
  have add: "pathname u = ''/add'' \<longrightarrow>
            session ?out
              = snd (client ''INSERT INTO my_table(name) VALUES($1);'' (Some [[]]) db)
            \<and> response ?out
              = (case fst (client ''INSERT INTO my_table(name) VALUES($1);'' (Some [[]]) db) of
                   Inl e \<Rightarrow>
                     Some (500, Text (''Some error happened :(( -- (error: '' @ message e @ '')''))
                 | Inr insertRow \<Rightarrow>
                     Some (200, Confirmation True
                             (''Inserted '' @ number_to_string (rowCount insertRow)
                                @ '' row with name '' @ [CHR 0x27] @ [] @ [CHR 0x27])))
            \<and> issued ?out
              = [\<lparr>sql = ''INSERT INTO my_table(name) VALUES($1);'', params = Some [[]]\<rparr>]"
  proof
    assume p: "pathname u = ''/add''"
    from requestHandler_add_outcome [where newURL = newURL and client = client and db = db,
        OF assms(1) p, unfolded n] iss p
    show "session ?out
              = snd (client ''INSERT INTO my_table(name) VALUES($1);'' (Some [[]]) db)
            \<and> response ?out
              = (case fst (client ''INSERT INTO my_table(name) VALUES($1);'' (Some [[]]) db) of
                   Inl e \<Rightarrow>
                     Some (500, Text (''Some error happened :(( -- (error: '' @ message e @ '')''))
                 | Inr insertRow \<Rightarrow>
                     Some (200, Confirmation True
                             (''Inserted '' @ number_to_string (rowCount insertRow)
                                @ '' row with name '' @ [CHR 0x27] @ [] @ [CHR 0x27])))
            \<and> issued ?out
              = [\<lparr>sql = ''INSERT INTO my_table(name) VALUES($1);'', params = Some [[]]\<rparr>]"
      by (simp del: number_to_string.simps)
  qed
  have read: "pathname u = ''/read'' \<longrightarrow>
            session ?out
              = snd (client ''SELECT * FROM my_table WHERE name = $1;'' (Some [[]]) db)
            \<and> response ?out
              = (case fst (client ''SELECT * FROM my_table WHERE name = $1;'' (Some [[]]) db) of
                   Inl e \<Rightarrow>
                     Some (500, Text (''Some error happened :(( -- (error: '' @ message e @ '')''))
                 | Inr entries \<Rightarrow> Some (200, Rows (rows entries)))
            \<and> issued ?out
              = [\<lparr>sql = ''SELECT * FROM my_table WHERE name = $1;'', params = Some [[]]\<rparr>]"
  proof
    assume p: "pathname u = ''/read''"
    from requestHandler_read_outcome [where newURL = newURL and client = client and db = db,
        OF assms(1) p, unfolded n] iss p
    show "session ?out
              = snd (client ''SELECT * FROM my_table WHERE name = $1;'' (Some [[]]) db)
            \<and> response ?out
              = (case fst (client ''SELECT * FROM my_table WHERE name = $1;'' (Some [[]]) db) of
                   Inl e \<Rightarrow>
                     Some (500, Text (''Some error happened :(( -- (error: '' @ message e @ '')''))
                 | Inr entries \<Rightarrow> Some (200, Rows (rows entries)))
            \<and> issued ?out
              = [\<lparr>sql = ''SELECT * FROM my_table WHERE name = $1;'', params = Some [[]]\<rparr>]"
      by simp
  qed
  have p: "searchParams_get (searchParams u') ''name'' = Some v \<longrightarrow> name_param u' = v"
    and a: "searchParams_get (searchParams u') ''name'' = None \<longrightarrow> name_param u' = ''john''"
    by (simp_all add: name_param_def)
  from n add read p a show ?thesis by simp
qed

text \<open>An instance of the theorem on the example requests.\<close>

theorem empty_name_not_defaulted_witness:
  "example_newURL (url \<lparr>method = ''GET'', url = ''/add?name=''\<rparr>) ''http://localhost:8080''
     = Inr \<lparr>pathname = ''/add'', searchParams = [(''name'', [])]\<rparr>
   \<and> searchParams_get (searchParams \<lparr>pathname = ''/add'', searchParams = [(''name'', [])]\<rparr>)
         ''name'' = Some []
   \<and> name_param \<lparr>pathname = ''/add'', searchParams = [(''name'', [])]\<rparr> = []
   \<and> session (requestHandler example_newURL (session_query \<lparr>fault = None, now = 9\<rparr>)
        \<lparr>method = ''GET'', url = ''/add?name=''\<rparr> \<lparr>table = [], next_id = 1\<rparr>)
     = \<lparr>table = [\<lparr>row_id = 1, row_name = Some [], row_date = 9\<rparr>], next_id = 2\<rparr>
   \<and> response (requestHandler example_newURL (session_query \<lparr>fault = None, now = 9\<rparr>)
        \<lparr>method = ''GET'', url = ''/add?name=''\<rparr> \<lparr>table = [], next_id = 1\<rparr>)
     = Some (200, Confirmation True (''Inserted 1 row with name '' @ [CHR 0x27, CHR 0x27]))
   \<and> issued (requestHandler example_newURL (session_query \<lparr>fault = None, now = 9\<rparr>)
        \<lparr>method = ''GET'', url = ''/add?name=''\<rparr> \<lparr>table = [], next_id = 1\<rparr>)
     = [\<lparr>sql = ''INSERT INTO my_table(name) VALUES($1);'', params = Some [[]]\<rparr>]"
proof -
  let ?r = "\<lparr>method = ''GET'', url = ''/add?name=''\<rparr>"
  let ?u = "\<lparr>pathname = ''/add'', searchParams = [(''name'', [])]\<rparr>"
  have h1: "example_newURL (url ?r) ''http://localhost:8080'' = Inr ?u"
    by (simp add: example_newURL_def)
  have h2: "searchParams_get (searchParams ?u) ''name'' = Some []"
    by simp
  have q: "session_query \<lparr>fault = None, now = 9\<rparr> ''INSERT INTO my_table(name) VALUES($1);''
             (Some [[]]) \<lparr>table = [], next_id = 1\<rparr>
           = (Inr \<lparr>rows = [], rowCount = 1\<rparr>,
              \<lparr>table = [\<lparr>row_id = 1, row_name = Some [], row_date = 9\<rparr>], next_id = 2\<rparr>)"
    by (simp add: session_query_def)
  from empty_name_not_defaulted [where newURL = example_newURL
      and client = "session_query \<lparr>fault = None, now = 9\<rparr>"
      and db = "\<lparr>table = [], next_id = 1\<rparr>", OF h1 h2] h1 h2 q
  show ?thesis by (auto simp add: digit_def)
qed

text \<open>
  Claim C10. When \<^verbatim>\<open>new URL(req.url, ...)\<close> throws, the handler writes no response and logs
  no line, makes no query and leaves the state behind the session as it was; the error
  escapes the handler, since the parsing stands before the \<^verbatim>\<open>try\<close> block.
\<close>

theorem url_parse_error_no_response:
  assumes "newURL (url req) ''http://localhost:8080'' = Inl e"
  shows "response (requestHandler newURL client req db) = None
       \<and> logged (requestHandler newURL client req db) = []
       \<and> issued (requestHandler newURL client req db) = []
       \<and> uncaught (requestHandler newURL client req db) = Some e
       \<and> session (requestHandler newURL client req db) = db"
  using assms by (simp add: requestHandler_throws)

text \<open>An instance of the theorem on the example requests.\<close>

theorem url_parse_error_no_response_witness:
  "example_newURL (url \<lparr>method = ''GET'', url = ''//''\<rparr>) ''http://localhost:8080''
     = Inl (Error ''Invalid URL'')
   \<and> response (requestHandler example_newURL (session_query \<lparr>fault = None, now = 0\<rparr>)
        \<lparr>method = ''GET'', url = ''//''\<rparr> \<lparr>table = [], next_id = 1\<rparr>) = None
   \<and> logged (requestHandler example_newURL (session_query \<lparr>fault = None, now = 0\<rparr>)
        \<lparr>method = ''GET'', url = ''//''\<rparr> \<lparr>table = [], next_id = 1\<rparr>) = []
   \<and> issued (requestHandler example_newURL (session_query \<lparr>fault = None, now = 0\<rparr>)
        \<lparr>method = ''GET'', url = ''//''\<rparr> \<lparr>table = [], next_id = 1\<rparr>) = []"
  using url_parse_error_no_response [where newURL = example_newURL and req = "\<lparr>method = ''GET'', url = ''//''\<rparr>"
      and e = "Error ''Invalid URL''" and client = "session_query \<lparr>fault = None, now = 0\<rparr>"
      and db = "\<lparr>table = [], next_id = 1\<rparr>"]
  by (simp add: example_newURL_def)

end
